theory Spec2Isabelle
  imports Complex_Main "HOL-Library.Signed_Division" "HOL-Library.Log_Nat"
begin

section \<open>The eviction manager of eviction-agent (pkg/evictionmanager/eviction\_manager.go)\<close>

text \<open>
  The eviction manager runs two loops: \<open>taintProcess\<close>, which every ten seconds reads the
  node's taints and the node condition, taints or untaints the node per resource and
  pushes at most one eviction request into \<open>evictChan\<close>; and the main loop of \<open>Run\<close>,
  which receives the requests and calls \<open>evictOnePod\<close> for each.

  The collaborators (the client, the condition manager, the clock and the log) are
  outside the file. Their results are inputs of the model and every call made to them
  is recorded, in program order, as an \<open>event\<close> of a trace.
\<close>

subsection \<open>Time\<close>

text \<open>
  Go's \<open>time.Duration\<close> is a signed 64-bit count of nanoseconds. A \<open>time.Time\<close> is
  modelled as the number of nanoseconds since the zero \<open>Time\<close> (the value of an
  uninitialised field), so the zero \<open>Time\<close> is 0. \<open>Sub\<close> is Go's \<open>Time.Sub\<close>: the
  difference, saturated to the range of \<open>Duration\<close>.
\<close>

type_synonym Duration = int
type_synonym Time = int

definition Nanosecond :: Duration where "Nanosecond = 1"
definition Second :: Duration where "Second = 1000000000 * Nanosecond"
definition Minute :: Duration where "Minute = 60 * Second"

definition maxDuration :: Duration where "maxDuration = 2 ^ 63 - 1"
definition minDuration :: Duration where "minDuration = - (2 ^ 63)"

definition zeroTime :: Time where "zeroTime = 0"

definition Sub :: "Time \<Rightarrow> Time \<Rightarrow> Duration" where
  "Sub t u = (if t - u > maxDuration then maxDuration
              else if t - u < minDuration then minDuration
              else t - u)"

text \<open>
  \<open>Duration.Minutes\<close> returns a \<open>float64\<close>:
  \<^verbatim>\<open>min := d / Minute; nsec := d % Minute; return float64(min) + float64(nsec)/(60*1e9)\<close>.
  A \<open>float64\<close> value is modelled as the rational it denotes, and \<open>float64 x\<close> is the
  IEEE 754 rounding of \<open>x\<close> to the nearest number with 53 significant bits, ties to
  the even significand: \<open>bexp x\<close> is the binary exponent of a positive \<open>x\<close>
  (\<open>2 ^ bexp x \<le> x < 2 ^ (bexp x + 1)\<close>), \<open>rne\<close> rounds to the nearest integer, ties
  to even, and \<open>rpos\<close> rounds a positive number on the grid of its exponent. Overflow and
  subnormal numbers do not occur: for a \<open>Duration\<close> the magnitudes rounded are 0 or lie
  between \<open>2 ^ -36\<close> and \<open>2 ^ 28\<close>.

  Go's \<open>/\<close> and \<open>%\<close> truncate towards zero (\<open>sdiv\<close>, \<open>smod\<close>). The two conversions
  \<open>float64(min)\<close> and \<open>float64(nsec)\<close> are exact for every \<open>Duration\<close> (both integers
  are below \<open>2 ^ 53\<close>, see \<open>Minutes_literal\<close>) and are written without rounding; the
  division and the sum are rounded. \<open>minutesSum\<close> is the sum before its rounding.
\<close>

definition bexp :: "rat \<Rightarrow> int" where
  "bexp x = (if 1 \<le> x then bitlen \<lfloor>x\<rfloor> - 1 else - bitlen (\<lceil>1 / x\<rceil> - 1))"

definition rne :: "rat \<Rightarrow> int" where
  "rne x = (let f = \<lfloor>x\<rfloor>; d = x - of_int f
            in if d < 1 / 2 then f
               else if 1 / 2 < d then f + 1
               else if even f then f else f + 1)"

definition rpos :: "rat \<Rightarrow> rat" where
  "rpos x = of_int (rne (x / 2 powi (bexp x - 52))) * 2 powi (bexp x - 52)"

definition float64 :: "rat \<Rightarrow> rat" where
  "float64 x = (if x = 0 then 0 else if 0 < x then rpos x else - rpos (- x))"

definition minutesSum :: "Duration \<Rightarrow> rat" where
  "minutesSum d = of_int (d sdiv Minute) + float64 (of_int (d smod Minute) / (60 * 1000000000))"

definition Minutes :: "Duration \<Rightarrow> rat" where
  "Minutes d = float64 (minutesSum d)"

definition taintUpdatePeriod :: Duration where
  "taintUpdatePeriod = 10 * Second"

subsection \<open>Types of the collaborating packages\<close>

text \<open>
  Modelled from the spec: the string constants \<open>types.CPUBusy\<close>, \<open>types.MemBusy\<close>,
  \<open>types.DiskIO\<close>, \<open>types.NetworkIO\<close>, \<open>types.NetworkRxBusy\<close> and
  \<open>types.NetworkTxBusy\<close> of package \<open>types\<close>, whose file is not part of the sources at
  hand. They name the taints and the eviction requests; the spec treats them as six
  distinct identities, so they are the constructors of a datatype.
\<close>

datatype taint_key =
    types_CPUBusy
  | types_MemBusy
  | types_DiskIO
  | types_NetworkIO
  | types_NetworkRxBusy
  | types_NetworkTxBusy

text \<open>
  \<open>types.NodeTaintInfo\<close> and the node condition, with the fields the manager reads.
\<close>

record NodeTaintInfo =
  DiskIO :: bool
  NetworkIO :: bool
  CPU :: bool
  Memory :: bool

record NodeCondition =
  NetworkRxAvailabel :: bool
  NetworkTxAvailabel :: bool
  DiskIOAvailable :: bool
  CPUAvailable :: bool
  MemoryAvailable :: bool

type_synonym error = string

datatype pod = Pod (Name: string)

subsection \<open>Events\<close>

datatype level = Info | Error

text \<open>
  One constructor per call that leaves the manager: the methods of the client
  (\<open>GetTaintConditions\<close>, \<open>SetTaintConditions\<close>, \<open>ClearAllEvictLabels\<close>, \<open>EvictOnePod\<close>,
  \<open>LabelPod\<close>), those of the condition manager (\<open>GetUnTaintGracePeriod\<close>,
  \<open>GetNodeCondition\<close>, \<open>ChooseOnePodToEvict\<close>), \<open>time.Sleep\<close>, a send on \<open>evictChan\<close>
  and a receive from it, and a log line (its level and format string; the arguments are
  not rendered).
\<close>

datatype event =
    Sleep Duration
  | GetUnTaintGracePeriod
  | GetTaintConditions
  | GetNodeCondition
  | ClearAllEvictLabels
  | SetTaintConditions taint_key string
  | Send taint_key
  | Recv taint_key
  | ChooseOnePodToEvict taint_key
  | EvictOnePod pod
  | LabelPod pod int string
  | Log level string

fun is_client_call :: "event \<Rightarrow> bool" where
  "is_client_call GetTaintConditions = True"
| "is_client_call ClearAllEvictLabels = True"
| "is_client_call (SetTaintConditions k a) = True"
| "is_client_call (EvictOnePod p) = True"
| "is_client_call (LabelPod p n a) = True"
| "is_client_call _ = False"

definition client_calls :: "event list \<Rightarrow> event list" where
  "client_calls tr = filter is_client_call tr"

fun sent_keys :: "event list \<Rightarrow> taint_key list" where
  "sent_keys [] = []"
| "sent_keys (Send k # tr) = k # sent_keys tr"
| "sent_keys (ev # tr) = sent_keys tr"

subsection \<open>The manager and its construction\<close>

text \<open>
  The fields of \<open>evictionManager\<close> that hold state. \<open>client\<close>, \<open>conditionManager\<close> and
  \<open>evictChan\<close> are the collaborators and appear as inputs and events.
\<close>

record evictionManager =
  nodeTaint :: NodeTaintInfo
  unTaintGracePeriod :: Duration
  lastTaintDiskIOTime :: Time
  lastTaintNetIOTime :: Time
  lastTaintCPUTime :: Time
  lastTaintMemTime :: Time

definition NewEvictionManager :: evictionManager where
  "NewEvictionManager =
     \<lparr> nodeTaint = \<lparr> DiskIO = False, NetworkIO = False, CPU = False, Memory = False \<rparr>,
       unTaintGracePeriod = 0,
       lastTaintDiskIOTime = zeroTime,
       lastTaintNetIOTime = zeroTime,
       lastTaintCPUTime = zeroTime,
       lastTaintMemTime = zeroTime \<rparr>"

subsection \<open>One iteration of taintProcess\<close>

text \<open>
  What the collaborators answer during one iteration: the grace period, the pair
  returned by \<open>GetTaintConditions\<close>, the node condition, the reading of \<open>time.Now()\<close> in
  each of the four resource sections (each section reads the clock at most once), the
  error returned by \<open>SetTaintConditions\<close> for a key and an action, and the error
  returned by \<open>ClearAllEvictLabels\<close>.

  Modelled from the spec: the signature \<open>ClearAllEvictionLabels() -> error\<close> of the
  client, whose package is not part of the sources at hand. The call in \<open>taintProcess\<close>
  is an expression statement, so whatever it returns is dropped there.
\<close>

record tick_env =
  graceIn :: Duration
  taintIn :: "NodeTaintInfo \<times> error option"
  condIn :: NodeCondition
  nowCPU :: Time
  nowMem :: Time
  nowDiskIO :: Time
  nowNetIO :: Time
  setTaintErr :: "taint_key \<Rightarrow> string \<Rightarrow> error option"
  clearErr :: "error option"

text \<open>
  The state inside an iteration: the manager, the local \<open>isEvicted\<close> and the trace so far.
\<close>

type_synonym tick_st = "evictionManager \<times> bool \<times> event list"

definition cpuSection :: "tick_env \<Rightarrow> tick_st \<Rightarrow> tick_st" where
  "cpuSection env s = (case s of (e, isEvicted, tr) \<Rightarrow>
     if CPUAvailable (condIn env) then
       (if CPU (nodeTaint e) then
          (let duration = Sub (nowCPU env) (lastTaintCPUTime e);
               tr1 = tr @ [Log Info ''last taint duration: %v'']
           in if Minutes duration > Minutes (graceIn env) then
                (e, isEvicted,
                 tr1 @ [SetTaintConditions types_CPUBusy ''UnTaint'', Log Info ''Untaint node %s'']
                     @ (if setTaintErr env types_CPUBusy ''UnTaint'' \<noteq> None
                        then [Log Error ''untaint node %s error: %v''] else []))
              else (e, isEvicted, tr1))
        else (e, isEvicted, tr))
     else
       (let e1 = e\<lparr>lastTaintCPUTime := nowCPU env\<rparr>;
            tr1 = (if \<not> CPU (nodeTaint e1) then
                     tr @ [Log Info ''taint node %s '', SetTaintConditions types_CPUBusy ''Taint'']
                        @ (if setTaintErr env types_CPUBusy ''Taint'' \<noteq> None
                           then [Log Error ''add taint %s error: %v''] else [])
                   else tr)
        in if \<not> isEvicted then (e1, True, tr1 @ [Send types_CPUBusy])
           else (e1, isEvicted, tr1)))"

definition memSection :: "tick_env \<Rightarrow> tick_st \<Rightarrow> tick_st" where
  "memSection env s = (case s of (e, isEvicted, tr) \<Rightarrow>
     if MemoryAvailable (condIn env) then
       (if Memory (nodeTaint e) then
          (let duration = Sub (nowMem env) (lastTaintMemTime e);
               tr1 = tr @ [Log Info (''last taint duration: %v'' @ [CHR 0x0A])]
           in if Minutes duration > Minutes (graceIn env) then
                (e, isEvicted,
                 tr1 @ [SetTaintConditions types_MemBusy ''UnTaint'', Log Info ''Untaint node %s'']
                     @ (if setTaintErr env types_MemBusy ''UnTaint'' \<noteq> None
                        then [Log Error ''untaint node %s error: %v''] else []))
              else (e, isEvicted, tr1))
        else (e, isEvicted, tr))
     else
       (let e1 = e\<lparr>lastTaintMemTime := nowMem env\<rparr>;
            tr1 = (if \<not> Memory (nodeTaint e1) then
                     tr @ [Log Info ''taint node %s '', SetTaintConditions types_MemBusy ''Taint'']
                        @ (if setTaintErr env types_MemBusy ''Taint'' \<noteq> None
                           then [Log Error ''add taint %s error: %v''] else [])
                   else tr)
        in if \<not> isEvicted then (e1, True, tr1 @ [Send types_MemBusy])
           else (e1, isEvicted, tr1)))"

definition diskSection :: "tick_env \<Rightarrow> tick_st \<Rightarrow> tick_st" where
  "diskSection env s = (case s of (e, isEvicted, tr) \<Rightarrow>
     if DiskIOAvailable (condIn env) then
       (if DiskIO (nodeTaint e) then
          (let duration = Sub (nowDiskIO env) (lastTaintDiskIOTime e);
               tr1 = tr @ [Log Info ''last taint duration: %v'']
           in if Minutes duration > Minutes (graceIn env) then
                (e, isEvicted,
                 tr1 @ [SetTaintConditions types_DiskIO ''UnTaint'', Log Info ''Untaint node %s'']
                     @ (if setTaintErr env types_DiskIO ''UnTaint'' \<noteq> None
                        then [Log Error ''untaint node %s error: %v''] else []))
              else (e, isEvicted, tr1))
        else (e, isEvicted, tr))
     else
       (let e1 = e\<lparr>lastTaintDiskIOTime := nowDiskIO env\<rparr>;
            tr1 = (if \<not> DiskIO (nodeTaint e1) then
                     tr @ [Log Info ''taint node %s '', SetTaintConditions types_DiskIO ''Taint'']
                        @ (if setTaintErr env types_DiskIO ''Taint'' \<noteq> None
                           then [Log Error ''add taint %s error: %v''] else [])
                   else tr)
        in if \<not> isEvicted then (e1, True, tr1 @ [Send types_DiskIO])
           else (e1, isEvicted, tr1)))"

text \<open>
  The network section. Both tests of its last \<open>if\<close> / \<open>else if\<close> read
  \<open>condition.NetworkTxAvailabel\<close>, as in the source.
\<close>

definition netSection :: "tick_env \<Rightarrow> tick_st \<Rightarrow> tick_st" where
  "netSection env s = (case s of (e, isEvicted, tr) \<Rightarrow>
     if NetworkRxAvailabel (condIn env) \<and> NetworkTxAvailabel (condIn env) then
       (if NetworkIO (nodeTaint e) then
          (let duration = Sub (nowNetIO env) (lastTaintNetIOTime e);
               tr1 = tr @ [Log Info ''last taint duration: %v'']
           in if Minutes duration > Minutes (graceIn env) then
                (e, isEvicted,
                 tr1 @ [SetTaintConditions types_NetworkIO ''UnTaint'']
                     @ (if setTaintErr env types_NetworkIO ''UnTaint'' \<noteq> None
                        then [Log Error ''untaint node %s error: %v''] else [])
                     @ [Log Info ''untaint node %s''])
              else (e, isEvicted, tr1))
        else (e, isEvicted, tr))
     else
       (let e1 = e\<lparr>lastTaintNetIOTime := nowNetIO env\<rparr>;
            tr1 = (if \<not> NetworkIO (nodeTaint e1) then
                     tr @ [Log Info ''taint node %s unavailable'',
                           SetTaintConditions types_NetworkIO ''Taint'']
                        @ (if setTaintErr env types_NetworkIO ''Taint'' \<noteq> None
                           then [Log Error ''add taint %s error: %v''] else [])
                   else tr)
        in if \<not> isEvicted then
             (if \<not> NetworkTxAvailabel (condIn env) then (e1, True, tr1 @ [Send types_NetworkRxBusy])
              else if \<not> NetworkTxAvailabel (condIn env) then (e1, True, tr1 @ [Send types_NetworkTxBusy])
              else (e1, True, tr1))
           else (e1, isEvicted, tr1)))"

text \<open>
  The test of the fast path: every resource available and no flag set in the taints
  just read.
\<close>

definition goodCondition :: "NodeCondition \<Rightarrow> NodeTaintInfo \<Rightarrow> bool" where
  "goodCondition condition nt \<longleftrightarrow>
     NetworkRxAvailabel condition \<and> NetworkTxAvailabel condition \<and> DiskIOAvailable condition \<and>
     CPUAvailable condition \<and> MemoryAvailable condition \<and>
     \<not> DiskIO nt \<and> \<not> NetworkIO nt \<and> \<not> CPU nt \<and> \<not> Memory nt"

text \<open>
  The body of the \<open>for\<close> loop. \<open>e.nodeTaint\<close> is assigned the first component of what
  \<open>GetTaintConditions\<close> returns, whether or not the second is an error.
\<close>

definition taintTick :: "tick_env \<Rightarrow> evictionManager \<Rightarrow> evictionManager \<times> event list" where
  "taintTick env e0 =
     (let tr0 = [Sleep taintUpdatePeriod, GetUnTaintGracePeriod];
          e = e0\<lparr>nodeTaint := fst (taintIn env)\<rparr>;
          tr1 = tr0 @ [GetTaintConditions]
      in if snd (taintIn env) \<noteq> None then
           (e, tr1 @ [Log Error ''get taint condition error: %v''])
         else
           (let condition = condIn env;
                tr2 = tr1 @ [GetNodeCondition]
            in if goodCondition condition (nodeTaint e) then
                 (e, tr2 @ [ClearAllEvictLabels])
               else
                 (case netSection env (diskSection env (memSection env
                          (cpuSection env (e, False, tr2)))) of
                    (e', isEvicted, tr') \<Rightarrow> (e', tr'))))"

text \<open>
  The loop never leaves by itself, so it is observed over the iterations for which the
  collaborators' answers are given: one \<open>tick_env\<close> per iteration. A send on \<open>evictChan\<close>
  is taken to complete (the main loop is assumed to receive it).
\<close>

fun taintProcess :: "evictionManager \<Rightarrow> tick_env list \<Rightarrow> evictionManager \<times> event list" where
  "taintProcess e [] = (e, [])"
| "taintProcess e (env # envs) =
     (case taintTick env e of (e1, tr) \<Rightarrow>
        (case taintProcess e1 envs of (e2, tr') \<Rightarrow> (e2, tr @ tr')))"

subsection \<open>evictOnePod and Run\<close>

text \<open>
  \<open>ChooseOnePodToEvict\<close> returns the pod, whether to evict it, a priority and an error.
  The errors returned by \<open>EvictOnePod\<close> and \<open>LabelPod\<close> are only logged.
\<close>

type_synonym choice = "pod \<times> bool \<times> int \<times> error option"

definition evictOnePod :: "(taint_key \<Rightarrow> choice) \<Rightarrow> taint_key \<Rightarrow> event list" where
  "evictOnePod decide evictType = (case decide evictType of (podToEvict, isEvict, priority, err) \<Rightarrow>
     [ChooseOnePodToEvict evictType] @
     (if err \<noteq> None then [Log Error ''evictOnePod choose one pod to evict error: %v'']
      else [Log Info (''Get pod: %v to evict.'' @ [CHR 0x0A])]
           @ (if isEvict then [EvictOnePod podToEvict]
              else [LabelPod podToEvict priority ''Add''])
           @ [Log Info ''Evict pod : %v'']))"

text \<open>
  The main loop of \<open>Run\<close>, over the requests it receives from \<open>evictChan\<close>. The answer of
  the condition manager may change from one request to the next: \<open>decide n\<close> is its
  answer at the \<open>n\<close>-th request.
\<close>

fun mainLoop :: "(nat \<Rightarrow> taint_key \<Rightarrow> choice) \<Rightarrow> nat \<Rightarrow> taint_key list \<Rightarrow> event list" where
  "mainLoop decide n [] = []"
| "mainLoop decide n (evictType # rest) =
     [Recv evictType, Log Info ''evict pod because %s is not available'']
     @ evictOnePod (decide n) evictType
     @ mainLoop decide (Suc n) rest"

text \<open>
  \<open>Run\<close> either returns the error of \<open>conditionManager.Start\<close>, or starts \<open>taintProcess\<close>
  and enters the main loop, from which no statement returns. The second outcome carries
  the trace of each of the two loops over the iterations observed; the requests received
  by the main loop are those sent by \<open>taintProcess\<close>, in order.
\<close>

datatype run_outcome = Returned error | Looping "event list" "event list"

definition Run :: "error option \<Rightarrow> tick_env list \<Rightarrow> (nat \<Rightarrow> taint_key \<Rightarrow> choice) \<Rightarrow>
    evictionManager \<Rightarrow> run_outcome" where
  "Run startErr envs decide e =
     (case startErr of
        Some err \<Rightarrow> Returned err
      | None \<Rightarrow> (case taintProcess e envs of
                  (e', tr) \<Rightarrow> Looping tr (mainLoop decide 0 (sent_keys tr))))"

subsection \<open>Resources, by key\<close>

text \<open>
  The four resources that have a taint, in the order of the sections of \<open>taintProcess\<close>,
  and for each its flag, its availability, its last-taint field and the clock reading of
  its section.
\<close>

definition resources :: "taint_key list" where
  "resources = [types_CPUBusy, types_MemBusy, types_DiskIO, types_NetworkIO]"

fun flag :: "taint_key \<Rightarrow> NodeTaintInfo \<Rightarrow> bool" where
  "flag types_CPUBusy nt = CPU nt"
| "flag types_MemBusy nt = Memory nt"
| "flag types_DiskIO nt = DiskIO nt"
| "flag types_NetworkIO nt = NetworkIO nt"
| "flag _ nt = False"

fun available :: "taint_key \<Rightarrow> NodeCondition \<Rightarrow> bool" where
  "available types_CPUBusy c = CPUAvailable c"
| "available types_MemBusy c = MemoryAvailable c"
| "available types_DiskIO c = DiskIOAvailable c"
| "available types_NetworkIO c = (NetworkRxAvailabel c \<and> NetworkTxAvailabel c)"
| "available types_NetworkRxBusy c = NetworkRxAvailabel c"
| "available types_NetworkTxBusy c = NetworkTxAvailabel c"

fun lastTaintTime :: "taint_key \<Rightarrow> evictionManager \<Rightarrow> Time" where
  "lastTaintTime types_CPUBusy e = lastTaintCPUTime e"
| "lastTaintTime types_MemBusy e = lastTaintMemTime e"
| "lastTaintTime types_DiskIO e = lastTaintDiskIOTime e"
| "lastTaintTime _ e = lastTaintNetIOTime e"

fun nowOf :: "taint_key \<Rightarrow> tick_env \<Rightarrow> Time" where
  "nowOf types_CPUBusy env = nowCPU env"
| "nowOf types_MemBusy env = nowMem env"
| "nowOf types_DiskIO env = nowDiskIO env"
| "nowOf _ env = nowNetIO env"

text \<open>The resource an eviction request is about.\<close>

fun signal_resource :: "taint_key \<Rightarrow> taint_key" where
  "signal_resource types_NetworkRxBusy = types_NetworkIO"
| "signal_resource types_NetworkTxBusy = types_NetworkIO"
| "signal_resource k = k"

definition unavailable_resources :: "NodeCondition \<Rightarrow> taint_key list" where
  "unavailable_resources c = filter (\<lambda>k. \<not> available k c) resources"

text \<open>
  The calls to \<open>SetTaintConditions\<close> that the section of resource \<open>k\<close> makes, given the
  taints read and the last-taint time of \<open>k\<close>.
\<close>

definition sectionCalls :: "taint_key \<Rightarrow> tick_env \<Rightarrow> NodeTaintInfo \<Rightarrow> Time \<Rightarrow> event list" where
  "sectionCalls k env nt lastBusy =
     (if available k (condIn env) then
        (if flag k nt \<and> Minutes (Sub (nowOf k env) lastBusy) > Minutes (graceIn env)
         then [SetTaintConditions k ''UnTaint''] else [])
      else (if \<not> flag k nt then [SetTaintConditions k ''Taint''] else []))"


fun is_read :: "event \<Rightarrow> bool" where
  "is_read GetTaintConditions = True"
| "is_read _ = False"

fun is_recv :: "event \<Rightarrow> bool" where
  "is_recv (Recv k) = True"
| "is_recv _ = False"

fun is_choose :: "event \<Rightarrow> bool" where
  "is_choose (ChooseOnePodToEvict k) = True"
| "is_choose _ = False"

subsection \<open>The taints of the node, as the client keeps them\<close>






subsection \<open>Sample inputs\<close>

text \<open>
  Concrete answers of the collaborators, at which the theorems below are evaluated.
  \<open>clock0\<close> is the third of November 2026 counted from the zero \<open>Time\<close>; \<open>sample\<close>
  builds the answers of one iteration in which all four sections read the same clock
  value and neither \<open>SetTaintConditions\<close> nor \<open>ClearAllEvictLabels\<close> fails.
\<close>

definition clock0 :: Time where
  "clock0 = 63929260800 * Second"

definition noSetErr :: "taint_key \<Rightarrow> string \<Rightarrow> error option" where
  "noSetErr k a = None"

definition noTaint :: NodeTaintInfo where
  "noTaint = \<lparr> DiskIO = False, NetworkIO = False, CPU = False, Memory = False \<rparr>"

definition cpuTaint :: NodeTaintInfo where
  "cpuTaint = \<lparr> DiskIO = False, NetworkIO = False, CPU = True, Memory = False \<rparr>"

definition allAvailable :: NodeCondition where
  "allAvailable = \<lparr> NetworkRxAvailabel = True, NetworkTxAvailabel = True,
     DiskIOAvailable = True, CPUAvailable = True, MemoryAvailable = True \<rparr>"

definition cpuBusy :: NodeCondition where
  "cpuBusy = allAvailable\<lparr>CPUAvailable := False\<rparr>"

definition rxBusy :: NodeCondition where
  "rxBusy = allAvailable\<lparr>NetworkRxAvailabel := False\<rparr>"

definition cpuMemDiskBusy :: NodeCondition where
  "cpuMemDiskBusy = allAvailable\<lparr>DiskIOAvailable := False, CPUAvailable := False,
     MemoryAvailable := False\<rparr>"

definition sample :: "Duration \<Rightarrow> NodeTaintInfo \<Rightarrow> error option \<Rightarrow> NodeCondition \<Rightarrow> Time \<Rightarrow> tick_env" where
  "sample grace nt err c t =
     \<lparr> graceIn = grace, taintIn = (nt, err), condIn = c,
       nowCPU = t, nowMem = t, nowDiskIO = t, nowNetIO = t, setTaintErr = noSetErr,
       clearErr = None \<rparr>"

definition env_idle :: tick_env where
  "env_idle = sample (30 * Second) noTaint None allAvailable clock0"

definition env_idle_clear_fails :: tick_env where
  "env_idle_clear_fails = env_idle\<lparr>clearErr := Some ''forbidden''\<rparr>"

definition env_rx_busy :: tick_env where
  "env_rx_busy = sample (30 * Second) noTaint None rxBusy clock0"

definition env_cpu_busy :: tick_env where
  "env_cpu_busy = sample (30 * Second) noTaint None cpuBusy clock0"

definition env_three_busy :: tick_env where
  "env_three_busy = sample (30 * Second) noTaint None cpuMemDiskBusy clock0"

definition env_read_fails :: tick_env where
  "env_read_fails = sample (30 * Second) noTaint (Some ''timeout'') cpuBusy clock0"

definition env_calm_10 :: tick_env where
  "env_calm_10 = sample (30 * Second) cpuTaint None allAvailable (clock0 + 10 * Second)"

definition env_busy_20 :: tick_env where
  "env_busy_20 = sample (30 * Second) cpuTaint None cpuBusy (clock0 + 20 * Second)"

definition env_calm_29 :: tick_env where
  "env_calm_29 = sample (30 * Second) cpuTaint None allAvailable (clock0 + 29 * Second)"

definition env_calm_40 :: tick_env where
  "env_calm_40 = sample (30 * Second) cpuTaint None allAvailable (clock0 + 40 * Second)"

definition env_calm_200d :: tick_env where
  "env_calm_200d = sample (288000 * Minute) cpuTaint None allAvailable (clock0 + 288000 * Minute + 1)"

definition env_first_max :: tick_env where
  "env_first_max = sample maxDuration cpuTaint None allAvailable clock0"

definition env_first :: tick_env where
  "env_first = sample (30 * Second) cpuTaint None allAvailable clock0"

definition podW :: pod where
  "podW = Pod ''W''"

definition decide_label :: "taint_key \<Rightarrow> choice" where
  "decide_label k = (podW, False, 7, None)"

definition decide_evict :: "taint_key \<Rightarrow> choice" where
  "decide_evict k = (podW, True, 0, None)"

definition decide_fail :: "taint_key \<Rightarrow> choice" where
  "decide_fail k = (podW, False, 0, Some ''no pod'')"

definition decide_steps :: "nat \<Rightarrow> taint_key \<Rightarrow> choice" where
  "decide_steps n = (if n = 0 then decide_label else if n = 1 then decide_evict else decide_fail)"

definition decide_seq :: "nat \<Rightarrow> taint_key \<Rightarrow> choice" where
  "decide_seq n = (if n = 0 then decide_fail else decide_label)"

section \<open>Properties\<close>

subsection \<open>Time\<close>

lemma Minute_value: "Minute = 60000000000"
  by (simp add: Minute_def Second_def Nanosecond_def)

subsection \<open>Rounding to float64\<close>

lemma rne_err: "\<bar>of_int (rne x) - x\<bar> \<le> 1 / 2"
  unfolding rne_def Let_def by (auto simp: abs_if) linarith+

lemma rne_int: "rne (of_int n) = n"
  by (simp add: rne_def)

lemma rne_mono: "x \<le> y \<Longrightarrow> rne x \<le> rne y"
proof -
  assume xy: "x \<le> y"
  then have f: "\<lfloor>x\<rfloor> \<le> \<lfloor>y\<rfloor>" by (rule floor_mono)
  show ?thesis
  proof (cases "\<lfloor>x\<rfloor> = \<lfloor>y\<rfloor>")
    case True
    with xy show ?thesis by (auto simp: rne_def Let_def)
  next
    case False
    with f have "\<lfloor>x\<rfloor> + 1 \<le> \<lfloor>y\<rfloor>" by simp
    moreover have "rne x \<le> \<lfloor>x\<rfloor> + 1" by (simp add: rne_def Let_def)
    moreover have "\<lfloor>y\<rfloor> \<le> rne y" by (simp add: rne_def Let_def)
    ultimately show ?thesis by linarith
  qed
qed

lemma bitlen_pos: "0 < n \<Longrightarrow> 1 \<le> bitlen n"
  by (auto simp: bitlen_alt_def)

lemma bexp_ge1:
  assumes "1 \<le> x"
  shows "2 powi bexp x \<le> x" and "x < 2 powi (bexp x + 1)"
proof -
  from assms have p: "0 < \<lfloor>x\<rfloor>" by simp
  have b: "1 \<le> bitlen \<lfloor>x\<rfloor>" using p by (rule bitlen_pos)
  have e: "bexp x = bitlen \<lfloor>x\<rfloor> - 1" using assms by (simp add: bexp_def)
  from bitlen_bounds [OF p]
  have lo: "2 ^ nat (bitlen \<lfloor>x\<rfloor> - 1) \<le> \<lfloor>x\<rfloor>" and hi: "\<lfloor>x\<rfloor> < 2 ^ nat (bitlen \<lfloor>x\<rfloor>)"
    by simp_all
  from lo have "(of_int (2 ^ nat (bitlen \<lfloor>x\<rfloor> - 1)) :: rat) \<le> of_int \<lfloor>x\<rfloor>"
    by (simp only: of_int_le_iff)
  moreover have "of_int \<lfloor>x\<rfloor> \<le> x" by simp
  moreover have "(of_int (2 ^ nat (bitlen \<lfloor>x\<rfloor> - 1)) :: rat) = 2 ^ nat (bitlen \<lfloor>x\<rfloor> - 1)" by simp
  ultimately have "(2::rat) ^ nat (bitlen \<lfloor>x\<rfloor> - 1) \<le> x" by linarith
  then show "2 powi bexp x \<le> x" using b by (simp add: e power_int_def)
  from hi have "\<lfloor>x\<rfloor> + 1 \<le> 2 ^ nat (bitlen \<lfloor>x\<rfloor>)" by simp
  then have "(of_int (\<lfloor>x\<rfloor> + 1) :: rat) \<le> of_int (2 ^ nat (bitlen \<lfloor>x\<rfloor>))"
    by (simp only: of_int_le_iff)
  moreover have "x < of_int (\<lfloor>x\<rfloor> + 1)" using floor_correct [of x] by simp
  moreover have "(of_int (2 ^ nat (bitlen \<lfloor>x\<rfloor>)) :: rat) = 2 ^ nat (bitlen \<lfloor>x\<rfloor>)" by simp
  ultimately have "x < (2::rat) ^ nat (bitlen \<lfloor>x\<rfloor>)" by linarith
  then show "x < 2 powi (bexp x + 1)" using b by (simp add: e power_int_def)
qed

lemma bexp_lt1:
  assumes "0 < x" and "x < 1"
  shows "2 powi bexp x \<le> x" and "x < 2 powi (bexp x + 1)"
proof -
  define t where "t = 1 / x"
  define c where "c = \<lceil>t\<rceil>"
  define k where "k = bitlen (c - 1)"
  have t1: "1 < t" using assms by (simp add: t_def)
  then have c2: "2 \<le> c" unfolding c_def by (simp add: le_ceiling_iff)
  then have p: "0 < c - 1" by simp
  have k1: "1 \<le> k" unfolding k_def using p by (rule bitlen_pos)
  have e: "bexp x = - k" using assms by (simp add: bexp_def k_def c_def t_def)
  from bitlen_bounds [OF p]
  have lo: "2 ^ nat (k - 1) \<le> c - 1" and hi: "c - 1 < 2 ^ nat k"
    by (simp_all add: k_def)
  from hi have "c \<le> 2 ^ nat k" by simp
  then have "(of_int c :: rat) \<le> of_int (2 ^ nat k)" by (simp only: of_int_le_iff)
  moreover have "t \<le> of_int c" unfolding c_def by simp
  moreover have "(of_int (2 ^ nat k) :: rat) = 2 ^ nat k" by simp
  ultimately have tk: "t \<le> 2 ^ nat k" by linarith
  have tx: "1 / t = x" using assms by (simp add: t_def)
  have pk: "(2::rat) powi (- k) = 1 / 2 ^ nat k"
    using k1 by (simp add: power_int_def inverse_eq_divide power_one_over)
  have "1 / (2 ^ nat k) \<le> 1 / t"
    using tk t1 by (intro divide_left_mono) simp_all
  then have "1 / (2 ^ nat k) \<le> x" by (simp only: tx)
  then show "2 powi bexp x \<le> x" by (simp only: e pk)
  from lo have "(of_int (2 ^ nat (k - 1)) :: rat) \<le> of_int (c - 1)" by (simp only: of_int_le_iff)
  moreover have "of_int (c - 1) < t" unfolding c_def by linarith
  moreover have "(of_int (2 ^ nat (k - 1)) :: rat) = 2 ^ nat (k - 1)" by simp
  ultimately have tk2: "2 ^ nat (k - 1) < t" by linarith
  have "1 / t < 1 / (2 ^ nat (k - 1))"
    using tk2 t1 by (intro divide_strict_left_mono) simp_all
  moreover have "2 powi (bexp x + 1) = 1 / ((2::rat) ^ nat (k - 1))"
  proof (cases "k = 1")
    case True
    then show ?thesis by (simp add: e)
  next
    case False
    with k1 have "- k + 1 < 0" "nat (k - 1) = nat (- (- k + 1))" by simp_all
    then show ?thesis
      by (simp add: e power_int_def inverse_eq_divide power_one_over)
  qed
  ultimately show "x < 2 powi (bexp x + 1)" by (simp only: tx)
qed

lemma bexp_bounds:
  assumes "0 < x"
  shows "2 powi bexp x \<le> x" and "x < 2 powi (bexp x + 1)"
  using assms bexp_ge1 [of x] bexp_lt1 [of x] by (cases "1 \<le> x"; simp)+

lemma pow2_step: "(2::rat) powi (e - 1) * 2 = 2 powi e"
  by (rule power_int_minus_mult) simp

lemma pow2_split: "(2::rat) powi (a + b) = 2 powi a * 2 powi b"
  by (rule power_int_add) simp

lemma pow2_less_exp: "(2::rat) powi a < 2 powi b \<Longrightarrow> a < b"
proof (rule ccontr)
  assume l: "(2::rat) powi a < 2 powi b" and "\<not> a < b"
  then have "b \<le> a" by simp
  then have "(2::rat) powi b \<le> 2 powi a" by (rule power_int_increasing) simp
  with l show False by simp
qed

lemma rpos_err:
  assumes "0 < x"
  shows "\<bar>rpos x - x\<bar> \<le> 2 powi (bexp x - 53)"
proof -
  define u :: rat where "u = 2 powi (bexp x - 52)"
  have u: "0 < u" by (simp add: u_def)
  have "rpos x - x = u * (of_int (rne (x / u)) - x / u)"
    using u by (simp add: rpos_def u_def algebra_simps)
  then have "\<bar>rpos x - x\<bar> = u * \<bar>of_int (rne (x / u)) - x / u\<bar>"
    using u by (simp add: abs_mult)
  also have "\<dots> \<le> u * (1 / 2)"
    using u rne_err [of "x / u"] by (intro mult_left_mono) simp_all
  also have "\<dots> = 2 powi (bexp x - 53)"
    using pow2_step [of "bexp x - 52"] by (simp add: u_def)
  finally show ?thesis .
qed

lemma rpos_lower:
  assumes "0 < x"
  shows "2 powi bexp x \<le> rpos x"
proof -
  define u :: rat where "u = 2 powi (bexp x - 52)"
  have u: "0 < u" by (simp add: u_def)
  have s: "(2::rat) powi bexp x = 2 ^ 52 * u"
    using pow2_split [of 52 "bexp x - 52"] by (simp add: u_def)
  have "2 ^ 52 * u \<le> x" using bexp_bounds(1) [OF assms] by (simp only: s)
  then have "of_int (2 ^ 52) \<le> x / u" using u by (simp add: pos_le_divide_eq)
  then have "rne (of_int (2 ^ 52)) \<le> rne (x / u)" by (rule rne_mono)
  then have "2 ^ 52 \<le> rne (x / u)" by (simp only: rne_int)
  then have "(of_int (2 ^ 52) :: rat) \<le> of_int (rne (x / u))" by (simp only: of_int_le_iff)
  then have "2 ^ 52 * u \<le> of_int (rne (x / u)) * u"
    using u by (intro mult_right_mono) simp_all
  then show ?thesis by (simp only: s rpos_def u_def)
qed

lemma rpos_upper:
  assumes "0 < x"
  shows "rpos x \<le> 2 powi (bexp x + 1)"
proof -
  define u :: rat where "u = 2 powi (bexp x - 52)"
  have u: "0 < u" by (simp add: u_def)
  have s: "(2::rat) powi (bexp x + 1) = 2 ^ 53 * u"
    using pow2_split [of 53 "bexp x - 52"] by (simp add: u_def add.commute)
  have "x \<le> 2 ^ 53 * u" using bexp_bounds(2) [OF assms] by (simp only: s)
  then have "x / u \<le> of_int (2 ^ 53)" using u by (simp add: pos_divide_le_eq)
  then have "rne (x / u) \<le> rne (of_int (2 ^ 53))" by (rule rne_mono)
  then have "rne (x / u) \<le> 2 ^ 53" by (simp only: rne_int)
  then have "(of_int (rne (x / u)) :: rat) \<le> of_int (2 ^ 53)" by (simp only: of_int_le_iff)
  then have "of_int (rne (x / u)) * u \<le> 2 ^ 53 * u"
    using u by (intro mult_right_mono) simp_all
  then show ?thesis by (simp only: s rpos_def u_def)
qed

lemma rpos_pos:
  assumes "0 < x"
  shows "0 < rpos x"
proof -
  have "(0::rat) < 2 powi bexp x" by simp
  with rpos_lower [OF assms] show ?thesis by linarith
qed

lemma bexp_mono:
  assumes "0 < x" and "x \<le> y"
  shows "bexp x \<le> bexp y"
proof -
  from assms have y: "0 < y" by simp
  have "2 powi bexp x \<le> x" using assms(1) by (rule bexp_bounds(1))
  also have "x \<le> y" by fact
  also have "y < 2 powi (bexp y + 1)" using y by (rule bexp_bounds(2))
  finally have "bexp x < bexp y + 1" by (rule pow2_less_exp)
  then show ?thesis by simp
qed

lemma rpos_mono:
  assumes "0 < x" and "x \<le> y"
  shows "rpos x \<le> rpos y"
proof (cases "bexp x = bexp y")
  case True
  define u :: rat where "u = 2 powi (bexp x - 52)"
  have u: "0 < u" by (simp add: u_def)
  have "x / u \<le> y / u" using assms(2) u by (simp add: divide_right_mono)
  then have "rne (x / u) \<le> rne (y / u)" by (rule rne_mono)
  then have "(of_int (rne (x / u)) :: rat) \<le> of_int (rne (y / u))" by (simp only: of_int_le_iff)
  then have "of_int (rne (x / u)) * u \<le> of_int (rne (y / u)) * u"
    using u by (intro mult_right_mono) simp_all
  then show ?thesis by (simp add: rpos_def u_def True)
next
  case False
  from assms have y: "0 < y" by simp
  from False bexp_mono [OF assms] have "bexp x + 1 \<le> bexp y" by simp
  then have "(2::rat) powi (bexp x + 1) \<le> 2 powi bexp y" by (rule power_int_increasing) simp
  with rpos_upper [OF assms(1)] rpos_lower [OF y] show ?thesis by linarith
qed

lemma float64_zero: "float64 0 = 0"
  by (simp add: float64_def)

lemma float64_minus: "float64 (- x) = - float64 x"
  by (simp add: float64_def)

lemma float64_nonneg: "0 \<le> x \<Longrightarrow> 0 \<le> float64 x"
  using rpos_pos [of x] by (auto simp add: float64_def less_imp_le)

lemma float64_mono:
  assumes "x \<le> y"
  shows "float64 x \<le> float64 y"
proof -
  consider "0 < x" | "y < 0" | "x \<le> 0" "0 \<le> y" by linarith
  then show ?thesis
  proof cases
    case 1
    with assms rpos_mono [of x y] show ?thesis by (simp add: float64_def)
  next
    case 2
    with assms rpos_mono [of "- y" "- x"] show ?thesis by (simp add: float64_def)
  next
    case 3
    have "float64 x \<le> 0" using float64_nonneg [of "- x"] 3(1) by (simp add: float64_minus)
    with float64_nonneg [OF 3(2)] show ?thesis by simp
  qed
qed

lemma float64_err:
  assumes "\<bar>x\<bar> < 2 powi k"
  shows "\<bar>float64 x - x\<bar> \<le> 2 powi (k - 54)"
proof -
  have pos: "\<bar>rpos z - z\<bar> \<le> 2 powi (k - 54)" if "0 < z" "z < 2 powi k" for z
  proof -
    have "2 powi bexp z \<le> z" using that(1) by (rule bexp_bounds(1))
    with that(2) have "(2::rat) powi bexp z < 2 powi k" by simp
    then have "bexp z < k" by (rule pow2_less_exp)
    then have "bexp z - 53 \<le> k - 54" by simp
    then have "(2::rat) powi (bexp z - 53) \<le> 2 powi (k - 54)" by (rule power_int_increasing) simp
    with rpos_err [OF that(1)] show ?thesis by simp
  qed
  consider "x = 0" | "0 < x" | "x < 0" by linarith
  then show ?thesis
  proof cases
    case 1
    then show ?thesis by (simp add: float64_def)
  next
    case 2
    with assms pos [of x] show ?thesis by (simp add: float64_def)
  next
    case 3
    with assms pos [of "- x"] show ?thesis by (simp add: float64_def abs_if split: if_splits)
  qed
qed

lemma rpos_of_int:
  assumes "0 < n" and "n < 2 ^ 53"
  shows "rpos (of_int n) = of_int n"
proof -
  let ?x = "of_int n :: rat"
  have x: "0 < ?x" using assms(1) by simp
  have p: "(of_int (2 ^ 53) :: rat) = 2 powi 53" by simp
  have "2 powi bexp ?x \<le> ?x" using x by (rule bexp_bounds(1))
  also have "?x < of_int (2 ^ 53)" using assms(2) by (simp only: of_int_less_iff)
  finally have "2 powi bexp ?x < (2::rat) powi 53" by (simp only: p)
  then have b: "bexp ?x < 53" by (rule pow2_less_exp)
  define k where "k = nat (52 - bexp ?x)"
  have k: "bexp ?x - 52 = - int k" using b by (simp add: k_def)
  have u: "(2::rat) powi (bexp ?x - 52) = 1 / 2 ^ k"
    by (simp only: k power_int_minus_divide power_int_of_nat)
  have "?x / (1 / 2 ^ k) = of_int (n * 2 ^ k)" by simp
  then have "rne (?x / (1 / 2 ^ k)) = n * 2 ^ k" by (simp only: rne_int)
  then show ?thesis by (simp add: rpos_def u)
qed

lemma float64_of_int: "\<bar>n\<bar> < 2 ^ 53 \<Longrightarrow> float64 (of_int n) = of_int n"
  using rpos_of_int [of n] rpos_of_int [of "- n"] by (auto simp add: float64_def)

subsection \<open>Minutes\<close>

lemma float64_one: "float64 1 = 1"
  by code_simp

lemma float64_le_one: "x \<le> 1 \<Longrightarrow> float64 x \<le> 1"
  using float64_mono [of x 1] by (simp add: float64_one)

lemma Minute_pos: "0 < Minute"
  by (simp add: Minute_value)

lemma sdiv_nonneg: "0 \<le> a \<Longrightarrow> a sdiv Minute = a div Minute"
  by (simp add: signed_divide_int_def Minute_value sgn_if)

lemma smod_nonneg: "0 \<le> a \<Longrightarrow> a smod Minute = a mod Minute"
  by (simp add: smod_mod_positive Minute_value)

lemma minutesSum_exact_part:
  "of_int (d sdiv Minute) + of_int (d smod Minute) / (60 * 1000000000) = (of_int d :: rat) / 60000000000"
proof -
  have "d sdiv Minute * Minute + d smod Minute = d" by (rule sdiv_mult_smod_eq)
  then have "(of_int (d sdiv Minute * Minute + d smod Minute) :: rat) = of_int d" by simp
  then have "(of_int d :: rat) = of_int (d sdiv Minute) * 60000000000 + of_int (d smod Minute)"
    unfolding of_int_add of_int_mult by (simp add: Minute_value)
  then show ?thesis by (simp add: field_simps)
qed

lemma smod_abs_less: "\<bar>d smod Minute\<bar> < Minute"
  using smod_int_range [of Minute d] Minute_pos by auto

lemma minutesSum_err: "\<bar>minutesSum d - of_int d / 60000000000\<bar> \<le> 2 powi (- 54)"
proof -
  let ?x = "(of_int (d smod Minute) :: rat) / (60 * 1000000000)"
  have "\<bar>(of_int (d smod Minute) :: rat)\<bar> < 60000000000"
    using smod_abs_less [of d] unfolding Minute_value of_int_abs [symmetric]
    by (metis of_int_less_iff of_int_numeral)
  then have "\<bar>?x\<bar> < 2 powi 0" by simp
  then have "\<bar>float64 ?x - ?x\<bar> \<le> 2 powi (0 - 54)" by (rule float64_err)
  moreover have "minutesSum d - of_int d / 60000000000 = float64 ?x - ?x"
    using minutesSum_exact_part [of d] by (simp add: minutesSum_def)
  ultimately show ?thesis by simp
qed

lemma minutesSum_minus: "minutesSum (- d) = - minutesSum d"
  by (simp add: minutesSum_def float64_minus)

lemma minutesSum_nonneg:
  assumes "0 \<le> d"
  shows "0 \<le> minutesSum d"
proof -
  have "0 \<le> d div Minute" using assms Minute_pos by (simp add: pos_imp_zdiv_nonneg_iff)
  moreover have "0 \<le> d mod Minute" using Minute_pos by simp
  then have "0 \<le> float64 (of_int (d mod Minute) / (60 * 1000000000))"
    by (intro float64_nonneg) simp
  ultimately show ?thesis using assms by (simp add: minutesSum_def sdiv_nonneg smod_nonneg)
qed

lemma minutesSum_mono_nonneg:
  assumes "0 \<le> a" and "a \<le> b"
  shows "minutesSum a \<le> minutesSum b"
proof -
  let ?f = "\<lambda>d. float64 (of_int (d mod Minute) / (60 * 1000000000))"
  from assms have b: "0 \<le> b" by simp
  have s: "minutesSum a = of_int (a div Minute) + ?f a" "minutesSum b = of_int (b div Minute) + ?f b"
    using assms(1) b by (simp_all add: minutesSum_def sdiv_nonneg smod_nonneg)
  have q: "a div Minute \<le> b div Minute" using assms(2) Minute_pos by (simp add: zdiv_mono1)
  show ?thesis
  proof (cases "a div Minute = b div Minute")
    case True
    have "a mod Minute = a - a div Minute * Minute" "b mod Minute = b - b div Minute * Minute"
      by (simp_all add: minus_div_mult_eq_mod)
    with True assms(2) have "a mod Minute \<le> b mod Minute" by simp
    then have "(of_int (a mod Minute) :: rat) / (60 * 1000000000)
        \<le> of_int (b mod Minute) / (60 * 1000000000)"
      by (simp add: divide_right_mono)
    then have "?f a \<le> ?f b" by (rule float64_mono)
    with True show ?thesis by (simp add: s)
  next
    case False
    with q have "a div Minute + 1 \<le> b div Minute" by simp
    then have "(of_int (a div Minute + 1) :: rat) \<le> of_int (b div Minute)"
      by (simp only: of_int_le_iff)
    then have l: "(of_int (a div Minute) :: rat) + 1 \<le> of_int (b div Minute)" by simp
    have "a mod Minute < Minute" using Minute_pos by simp
    then have "(of_int (a mod Minute) :: rat) \<le> 60000000000"
      unfolding Minute_value by (metis of_int_le_iff of_int_numeral less_imp_le)
    then have "(of_int (a mod Minute) :: rat) / (60 * 1000000000) \<le> 1" by simp
    then have fa: "?f a \<le> 1" by (rule float64_le_one)
    have "0 \<le> b mod Minute" using Minute_pos by simp
    then have fb: "0 \<le> ?f b" by (intro float64_nonneg) simp
    from l fa fb show ?thesis by (simp add: s)
  qed
qed

lemma minutesSum_mono:
  assumes "a \<le> b"
  shows "minutesSum a \<le> minutesSum b"
proof -
  consider "0 \<le> a" | "b \<le> 0" | "a \<le> 0" "0 \<le> b" by linarith
  then show ?thesis
  proof cases
    case 1
    then show ?thesis using assms by (rule minutesSum_mono_nonneg)
  next
    case 2
    with assms have "minutesSum (- b) \<le> minutesSum (- a)"
      by (intro minutesSum_mono_nonneg) simp_all
    then show ?thesis by (simp add: minutesSum_minus)
  next
    case 3
    have "minutesSum a \<le> 0"
      using minutesSum_nonneg [of "- a"] 3(1) by (simp add: minutesSum_minus)
    with minutesSum_nonneg [OF 3(2)] show ?thesis by simp
  qed
qed

lemma Minutes_mono: "a \<le> b \<Longrightarrow> Minutes a \<le> Minutes b"
  unfolding Minutes_def by (intro float64_mono minutesSum_mono)

lemma Minutes_less_imp: "Minutes a < Minutes b \<Longrightarrow> a < b"
  using Minutes_mono [of b a] by (cases "a < b") simp_all

lemma Minutes_err_small:
  assumes "\<bar>d\<bar> < 2 ^ 17 * Minute"
  shows "\<bar>Minutes d - of_int d / 60000000000\<bar> \<le> 2 powi (- 37) + 2 powi (- 54)"
proof -
  let ?x = "(of_int d :: rat) / 60000000000"
  from assms have "\<bar>d\<bar> \<le> 2 ^ 17 * Minute - 1" by simp
  then have "(of_int \<bar>d\<bar> :: rat) \<le> of_int (2 ^ 17 * Minute - 1)" by (simp only: of_int_le_iff)
  then have "\<bar>of_int d :: rat\<bar> \<le> 2 ^ 17 * 60000000000 - 1" by (simp add: Minute_value)
  then have x: "\<bar>?x\<bar> \<le> 2 ^ 17 - 1 / 60000000000" by (simp add: field_simps)
  have e: "\<bar>minutesSum d - ?x\<bar> \<le> 2 powi (- 54)" by (rule minutesSum_err)
  have "\<bar>minutesSum d\<bar> \<le> \<bar>?x\<bar> + \<bar>minutesSum d - ?x\<bar>" by linarith
  with x e have "\<bar>minutesSum d\<bar> \<le> 2 ^ 17 - 1 / 60000000000 + 2 powi (- 54)" by linarith
  also have "\<dots> < 2 powi 17" by simp
  finally have "\<bar>float64 (minutesSum d) - minutesSum d\<bar> \<le> 2 powi (17 - 54)"
    by (rule float64_err)
  then have "\<bar>Minutes d - minutesSum d\<bar> \<le> 2 powi (- 37)" by (simp add: Minutes_def)
  with e show ?thesis by linarith
qed

lemma Minutes_strict_small:
  assumes "\<bar>a\<bar> < 2 ^ 17 * Minute" and "\<bar>b\<bar> < 2 ^ 17 * Minute" and "a < b"
  shows "Minutes a < Minutes b"
proof -
  from assms(3) have "a + 1 \<le> b" by simp
  then have "(of_int (a + 1) :: rat) \<le> of_int b" by (simp only: of_int_le_iff)
  then have "(of_int a :: rat) / 60000000000 + 1 / 60000000000 \<le> of_int b / 60000000000"
    by (simp add: field_simps)
  moreover have "(2::rat) powi (- 37) + 2 powi (- 54) + (2 powi (- 37) + 2 powi (- 54)) < 1 / 60000000000"
    by simp
  ultimately show ?thesis
    using Minutes_err_small [OF assms(1)] Minutes_err_small [OF assms(2)] by linarith
qed

lemma Minutes_less_small:
  assumes "\<bar>a\<bar> < 2 ^ 17 * Minute" and "\<bar>b\<bar> < 2 ^ 17 * Minute"
  shows "Minutes a < Minutes b \<longleftrightarrow> a < b"
  using Minutes_strict_small [OF assms] Minutes_less_imp [of a b] by blast

text \<open>
  Where the rounding shows: one nanosecond more than 200 days is the same number of
  minutes, and so are the 558 largest values of \<open>Duration\<close>.
\<close>

lemma Minutes_200d_plus_1: "Minutes (288000 * Minute + 1) = Minutes (288000 * Minute)"
  by code_simp

lemma Minutes_near_max: "Minutes (maxDuration - 557) = Minutes maxDuration"
  by code_simp

lemma Minutes_below_max: "Minutes (maxDuration - 558) < Minutes maxDuration"
  by code_simp

lemma Minutes_less_max: "Minutes g < Minutes maxDuration \<longleftrightarrow> g \<le> maxDuration - 558"
proof
  assume l: "Minutes g < Minutes maxDuration"
  show "g \<le> maxDuration - 558"
  proof (rule ccontr)
    assume "\<not> g \<le> maxDuration - 558"
    then have "maxDuration - 557 \<le> g" by simp
    then have "Minutes (maxDuration - 557) \<le> Minutes g" by (rule Minutes_mono)
    with l show False by (simp add: Minutes_near_max)
  qed
next
  assume "g \<le> maxDuration - 558"
  then have "Minutes g \<le> Minutes (maxDuration - 558)" by (rule Minutes_mono)
  with Minutes_below_max show "Minutes g < Minutes maxDuration" by simp
qed

text \<open>
  For every \<open>Duration\<close> the two integer conversions of \<open>Duration.Minutes\<close> are exact,
  so \<open>Minutes\<close> is the expression of the Go source with all its roundings.
\<close>

lemma Minutes_literal:
  assumes "minDuration \<le> d" and "d \<le> maxDuration"
  shows "float64 (float64 (of_int (d sdiv Minute))
           + float64 (float64 (of_int (d smod Minute)) / (60 * 1000000000))) = Minutes d"
proof -
  have "\<bar>d smod Minute\<bar> < 2 ^ 53"
    using smod_abs_less [of d] by (simp add: Minute_value)
  then have r: "float64 (of_int (d smod Minute)) = of_int (d smod Minute)"
    by (rule float64_of_int)
  from assms have "\<bar>d\<bar> \<le> 2 ^ 63" by (simp add: minDuration_def maxDuration_def)
  then have "\<bar>d\<bar> div Minute \<le> 2 ^ 63 div Minute"
    using Minute_pos by (intro zdiv_mono1) simp_all
  moreover have "\<bar>d sdiv Minute\<bar> = \<bar>d\<bar> div Minute"
    using Minute_pos by (simp add: signed_divide_int_def abs_mult sgn_if pos_imp_zdiv_nonneg_iff)
  ultimately have "\<bar>d sdiv Minute\<bar> < 2 ^ 53" by (simp add: Minute_value)
  then have q: "float64 (of_int (d sdiv Minute)) = of_int (d sdiv Minute)"
    by (rule float64_of_int)
  show ?thesis by (simp only: q r Minutes_def minutesSum_def)
qed

subsection \<open>Traces\<close>

lemma client_calls_append: "client_calls (a @ b) = client_calls a @ client_calls b"
  by (simp add: client_calls_def)

lemma sent_keys_append: "sent_keys (a @ b) = sent_keys a @ sent_keys b"
  by (induction a rule: sent_keys.induct) simp_all

subsection \<open>The four sections\<close>

lemma cpu_calls:
  "client_calls (snd (snd (cpuSection env s))) =
     client_calls (snd (snd s)) @ sectionCalls types_CPUBusy env (nodeTaint (fst s)) (lastTaintCPUTime (fst s))"
  by (cases s) (simp add: cpuSection_def sectionCalls_def Let_def client_calls_def)

lemma cpu_sent:
  "sent_keys (snd (snd (cpuSection env s))) = sent_keys (snd (snd s)) @ (if \<not> CPUAvailable (condIn env) \<and> \<not> fst (snd s) then [types_CPUBusy] else [])"
  by (cases s) (simp add: cpuSection_def Let_def sent_keys_append)

lemma cpu_isEvicted:
  "fst (snd (cpuSection env s)) = (if CPUAvailable (condIn env) then fst (snd s) else True)"
  by (cases s) (simp add: cpuSection_def Let_def)

lemma cpu_mgr:
  "fst (cpuSection env s) = (if CPUAvailable (condIn env) then fst s else (fst s)\<lparr>lastTaintCPUTime := nowCPU env\<rparr>)"
  by (cases s) (simp add: cpuSection_def Let_def)

lemma mem_calls:
  "client_calls (snd (snd (memSection env s))) =
     client_calls (snd (snd s)) @ sectionCalls types_MemBusy env (nodeTaint (fst s)) (lastTaintMemTime (fst s))"
  by (cases s) (simp add: memSection_def sectionCalls_def Let_def client_calls_def)

lemma mem_sent:
  "sent_keys (snd (snd (memSection env s))) = sent_keys (snd (snd s)) @ (if \<not> MemoryAvailable (condIn env) \<and> \<not> fst (snd s) then [types_MemBusy] else [])"
  by (cases s) (simp add: memSection_def Let_def sent_keys_append)

lemma mem_isEvicted:
  "fst (snd (memSection env s)) = (if MemoryAvailable (condIn env) then fst (snd s) else True)"
  by (cases s) (simp add: memSection_def Let_def)

lemma mem_mgr:
  "fst (memSection env s) = (if MemoryAvailable (condIn env) then fst s else (fst s)\<lparr>lastTaintMemTime := nowMem env\<rparr>)"
  by (cases s) (simp add: memSection_def Let_def)

lemma disk_calls:
  "client_calls (snd (snd (diskSection env s))) =
     client_calls (snd (snd s)) @ sectionCalls types_DiskIO env (nodeTaint (fst s)) (lastTaintDiskIOTime (fst s))"
  by (cases s) (simp add: diskSection_def sectionCalls_def Let_def client_calls_def)

lemma disk_sent:
  "sent_keys (snd (snd (diskSection env s))) = sent_keys (snd (snd s)) @ (if \<not> DiskIOAvailable (condIn env) \<and> \<not> fst (snd s) then [types_DiskIO] else [])"
  by (cases s) (simp add: diskSection_def Let_def sent_keys_append)

lemma disk_isEvicted:
  "fst (snd (diskSection env s)) = (if DiskIOAvailable (condIn env) then fst (snd s) else True)"
  by (cases s) (simp add: diskSection_def Let_def)

lemma disk_mgr:
  "fst (diskSection env s) = (if DiskIOAvailable (condIn env) then fst s else (fst s)\<lparr>lastTaintDiskIOTime := nowDiskIO env\<rparr>)"
  by (cases s) (simp add: diskSection_def Let_def)

lemma net_calls:
  "client_calls (snd (snd (netSection env s))) =
     client_calls (snd (snd s)) @ sectionCalls types_NetworkIO env (nodeTaint (fst s)) (lastTaintNetIOTime (fst s))"
  by (cases s) (simp add: netSection_def sectionCalls_def Let_def client_calls_def)

lemma net_sent:
  "sent_keys (snd (snd (netSection env s))) = sent_keys (snd (snd s)) @ (if \<not> NetworkTxAvailabel (condIn env) \<and> \<not> fst (snd s) then [types_NetworkRxBusy] else [])"
  by (cases s) (simp add: netSection_def Let_def sent_keys_append)

lemma net_isEvicted:
  "fst (snd (netSection env s)) = (if (NetworkRxAvailabel (condIn env) \<and> NetworkTxAvailabel (condIn env)) then fst (snd s) else True)"
  by (cases s) (simp add: netSection_def Let_def)

lemma net_mgr:
  "fst (netSection env s) = (if (NetworkRxAvailabel (condIn env) \<and> NetworkTxAvailabel (condIn env)) then fst s else (fst s)\<lparr>lastTaintNetIOTime := nowNetIO env\<rparr>)"
  by (cases s) (simp add: netSection_def Let_def)


lemma cpu_nodeTaint: "nodeTaint (fst (cpuSection env s)) = nodeTaint (fst s)"
  by (simp add: cpu_mgr)

lemma cpu_lastTaintCPUTime: "lastTaintCPUTime (fst (cpuSection env s)) = (if CPUAvailable (condIn env) then lastTaintCPUTime (fst s) else nowCPU env)"
  by (simp add: cpu_mgr)

lemma cpu_lastTaintMemTime: "lastTaintMemTime (fst (cpuSection env s)) = lastTaintMemTime (fst s)"
  by (simp add: cpu_mgr)

lemma cpu_lastTaintDiskIOTime: "lastTaintDiskIOTime (fst (cpuSection env s)) = lastTaintDiskIOTime (fst s)"
  by (simp add: cpu_mgr)

lemma cpu_lastTaintNetIOTime: "lastTaintNetIOTime (fst (cpuSection env s)) = lastTaintNetIOTime (fst s)"
  by (simp add: cpu_mgr)

lemma mem_nodeTaint: "nodeTaint (fst (memSection env s)) = nodeTaint (fst s)"
  by (simp add: mem_mgr)

lemma mem_lastTaintCPUTime: "lastTaintCPUTime (fst (memSection env s)) = lastTaintCPUTime (fst s)"
  by (simp add: mem_mgr)

lemma mem_lastTaintMemTime: "lastTaintMemTime (fst (memSection env s)) = (if MemoryAvailable (condIn env) then lastTaintMemTime (fst s) else nowMem env)"
  by (simp add: mem_mgr)

lemma mem_lastTaintDiskIOTime: "lastTaintDiskIOTime (fst (memSection env s)) = lastTaintDiskIOTime (fst s)"
  by (simp add: mem_mgr)

lemma mem_lastTaintNetIOTime: "lastTaintNetIOTime (fst (memSection env s)) = lastTaintNetIOTime (fst s)"
  by (simp add: mem_mgr)

lemma disk_nodeTaint: "nodeTaint (fst (diskSection env s)) = nodeTaint (fst s)"
  by (simp add: disk_mgr)

lemma disk_lastTaintCPUTime: "lastTaintCPUTime (fst (diskSection env s)) = lastTaintCPUTime (fst s)"
  by (simp add: disk_mgr)

lemma disk_lastTaintMemTime: "lastTaintMemTime (fst (diskSection env s)) = lastTaintMemTime (fst s)"
  by (simp add: disk_mgr)

lemma disk_lastTaintDiskIOTime: "lastTaintDiskIOTime (fst (diskSection env s)) = (if DiskIOAvailable (condIn env) then lastTaintDiskIOTime (fst s) else nowDiskIO env)"
  by (simp add: disk_mgr)

lemma disk_lastTaintNetIOTime: "lastTaintNetIOTime (fst (diskSection env s)) = lastTaintNetIOTime (fst s)"
  by (simp add: disk_mgr)

lemma net_nodeTaint: "nodeTaint (fst (netSection env s)) = nodeTaint (fst s)"
  by (simp add: net_mgr)

lemma net_lastTaintCPUTime: "lastTaintCPUTime (fst (netSection env s)) = lastTaintCPUTime (fst s)"
  by (simp add: net_mgr)

lemma net_lastTaintMemTime: "lastTaintMemTime (fst (netSection env s)) = lastTaintMemTime (fst s)"
  by (simp add: net_mgr)

lemma net_lastTaintDiskIOTime: "lastTaintDiskIOTime (fst (netSection env s)) = lastTaintDiskIOTime (fst s)"
  by (simp add: net_mgr)

lemma net_lastTaintNetIOTime: "lastTaintNetIOTime (fst (netSection env s)) = (if (NetworkRxAvailabel (condIn env) \<and> NetworkTxAvailabel (condIn env)) then lastTaintNetIOTime (fst s) else nowNetIO env)"
  by (simp add: net_mgr)

lemmas section_simps = cpu_calls mem_calls disk_calls net_calls cpu_sent mem_sent disk_sent net_sent
  cpu_isEvicted mem_isEvicted disk_isEvicted net_isEvicted
  cpu_nodeTaint cpu_lastTaintCPUTime cpu_lastTaintMemTime cpu_lastTaintDiskIOTime cpu_lastTaintNetIOTime mem_nodeTaint mem_lastTaintCPUTime mem_lastTaintMemTime mem_lastTaintDiskIOTime mem_lastTaintNetIOTime disk_nodeTaint disk_lastTaintCPUTime disk_lastTaintMemTime disk_lastTaintDiskIOTime disk_lastTaintNetIOTime net_nodeTaint net_lastTaintCPUTime net_lastTaintMemTime net_lastTaintDiskIOTime net_lastTaintNetIOTime

subsection \<open>One iteration\<close>

lemma tick_skipped:
  "snd (taintIn env) \<noteq> None \<Longrightarrow>
   taintTick env e = (e\<lparr>nodeTaint := fst (taintIn env)\<rparr>,
     [Sleep taintUpdatePeriod, GetUnTaintGracePeriod, GetTaintConditions,
      Log Error ''get taint condition error: %v''])"
  by (simp add: taintTick_def Let_def)

lemma tick_fast:
  "snd (taintIn env) = None \<Longrightarrow> goodCondition (condIn env) (fst (taintIn env)) \<Longrightarrow>
   taintTick env e = (e\<lparr>nodeTaint := fst (taintIn env)\<rparr>,
     [Sleep taintUpdatePeriod, GetUnTaintGracePeriod, GetTaintConditions, GetNodeCondition,
      ClearAllEvictLabels])"
  by (simp add: taintTick_def Let_def)


lemma tick_calls:
  "client_calls (snd (taintTick env e)) =
     (if snd (taintIn env) \<noteq> None then [GetTaintConditions]
      else if goodCondition (condIn env) (fst (taintIn env))
        then [GetTaintConditions, ClearAllEvictLabels]
      else GetTaintConditions #
        concat (map (\<lambda>k. sectionCalls k env (fst (taintIn env)) (lastTaintTime k e)) resources))"
  by (simp add: taintTick_def Let_def case_prod_beta section_simps resources_def)
     (simp add: client_calls_def)

lemma tick_sent:
  "sent_keys (snd (taintTick env e)) =
     (if snd (taintIn env) \<noteq> None \<or> goodCondition (condIn env) (fst (taintIn env)) then []
      else if \<not> CPUAvailable (condIn env) then [types_CPUBusy]
      else if \<not> MemoryAvailable (condIn env) then [types_MemBusy]
      else if \<not> DiskIOAvailable (condIn env) then [types_DiskIO]
      else if \<not> NetworkTxAvailabel (condIn env) then [types_NetworkRxBusy]
      else [])"
  by (simp add: taintTick_def Let_def case_prod_beta section_simps)

lemma tick_nodeTaint: "nodeTaint (fst (taintTick env e)) = fst (taintIn env)"
  by (simp add: taintTick_def Let_def case_prod_beta section_simps)

lemma tick_lastTaintTime:
  "k \<in> set resources \<Longrightarrow> lastTaintTime k (fst (taintTick env e)) =
     (if snd (taintIn env) = None \<and> \<not> available k (condIn env) then nowOf k env
      else lastTaintTime k e)"
  by (auto simp add: taintTick_def Let_def case_prod_beta section_simps resources_def goodCondition_def)

lemmas sample_defs = sample_def noSetErr_def noTaint_def cpuTaint_def allAvailable_def cpuBusy_def
  rxBusy_def cpuMemDiskBusy_def clock0_def Second_def Nanosecond_def

subsection \<open>The loop\<close>

lemma process_Cons:
  "taintProcess e (env # envs) =
     (fst (taintProcess (fst (taintTick env e)) envs),
      snd (taintTick env e) @ snd (taintProcess (fst (taintTick env e)) envs))"
  by (simp split: prod.splits)

lemma process_nodeTaint:
  "envs \<noteq> [] \<Longrightarrow> nodeTaint (fst (taintProcess e envs)) = fst (taintIn (last envs))"
proof (induction envs arbitrary: e)
  case Nil
  then show ?case by simp
next
  case (Cons env envs)
  show ?case
  proof (cases "envs = []")
    case True
    then show ?thesis by (simp add: tick_nodeTaint split: prod.splits)
  next
    case False
    with Cons.IH [of "fst (taintTick env e)"] show ?thesis
      by (simp add: process_Cons del: taintProcess.simps)
  qed
qed

subsection \<open>Taint and untaint calls of an iteration\<close>

lemma set_calls_mem:
  "SetTaintConditions k a \<in> set tr \<longleftrightarrow> SetTaintConditions k a \<in> set (client_calls tr)"
  by (simp add: client_calls_def)

lemma section_call_key:
  "SetTaintConditions k a \<in> set (sectionCalls k' env nt lastBusy) \<Longrightarrow> k = k'"
  by (simp add: sectionCalls_def split: if_splits)

lemma good_no_flag: "k \<in> set resources \<Longrightarrow> flag k nt \<Longrightarrow> \<not> goodCondition c nt"
  by (auto simp add: resources_def goodCondition_def)

lemma good_available: "k \<in> set resources \<Longrightarrow> \<not> available k c \<Longrightarrow> \<not> goodCondition c nt"
  by (auto simp add: resources_def goodCondition_def)

lemma tick_set_call:
  assumes "snd (taintIn env) = None"
  shows "SetTaintConditions k a \<in> set (snd (taintTick env e)) \<longleftrightarrow>
     \<not> goodCondition (condIn env) (fst (taintIn env)) \<and> k \<in> set resources \<and>
     SetTaintConditions k a \<in> set (sectionCalls k env (fst (taintIn env)) (lastTaintTime k e))"
proof (cases "goodCondition (condIn env) (fst (taintIn env))")
  case True
  with assms show ?thesis by (simp add: set_calls_mem [of k a "snd (taintTick env e)"] tick_calls)
next
  case False
  with assms have "SetTaintConditions k a \<in> set (snd (taintTick env e)) \<longleftrightarrow>
      (\<exists>k'\<in>set resources. SetTaintConditions k a
          \<in> set (sectionCalls k' env (fst (taintIn env)) (lastTaintTime k' e)))"
    by (simp add: set_calls_mem [of k a "snd (taintTick env e)"] tick_calls)
  also have "\<dots> \<longleftrightarrow> k \<in> set resources \<and>
      SetTaintConditions k a \<in> set (sectionCalls k env (fst (taintIn env)) (lastTaintTime k e))"
    using section_call_key by blast
  finally show ?thesis using False by simp
qed

lemma untaint_in_tick:
  assumes "k \<in> set resources" and "snd (taintIn env) = None" and "flag k (fst (taintIn env))"
    and "available k (condIn env)"
  shows "SetTaintConditions k ''UnTaint'' \<in> set (snd (taintTick env e)) \<longleftrightarrow>
     Minutes (graceIn env) < Minutes (Sub (nowOf k env) (lastTaintTime k e))"
  using assms good_no_flag [OF assms(1,3), of "condIn env"]
  by (simp add: tick_set_call sectionCalls_def)

lemma taint_in_tick:
  assumes "k \<in> set resources" and "snd (taintIn env) = None"
  shows "SetTaintConditions k ''Taint'' \<in> set (snd (taintTick env e)) \<longleftrightarrow>
     \<not> available k (condIn env) \<and> \<not> flag k (fst (taintIn env))"
  using assms good_available [OF assms(1), of "condIn env" "fst (taintIn env)"]
  by (auto simp add: tick_set_call sectionCalls_def)

lemma process_lastTaintTime_kept:
  "k \<in> set resources \<Longrightarrow>
   \<forall>env\<in>set envs. snd (taintIn env) \<noteq> None \<or> available k (condIn env) \<Longrightarrow>
   lastTaintTime k (fst (taintProcess e envs)) = lastTaintTime k e"
proof (induction envs arbitrary: e)
  case Nil
  then show ?case by simp
next
  case (Cons env envs)
  have "lastTaintTime k (fst (taintTick env e)) = lastTaintTime k e"
    using Cons.prems by (auto simp add: tick_lastTaintTime)
  moreover have "lastTaintTime k (fst (taintProcess (fst (taintTick env e)) envs)) =
      lastTaintTime k (fst (taintTick env e))"
    using Cons.prems by (intro Cons.IH) simp_all
  ultimately show ?case by (simp add: process_Cons del: taintProcess.simps)
qed

lemmas sample_defs2 = env_cpu_busy_def env_calm_10_def env_calm_29_def env_calm_40_def env_busy_20_def sample_defs

subsection \<open>Requests sent and taints read by the loop\<close>

lemma process_sent_Cons:
  "sent_keys (snd (taintProcess e (env # envs))) =
     sent_keys (snd (taintTick env e)) @ sent_keys (snd (taintProcess (fst (taintTick env e)) envs))"
  by (simp only: process_Cons snd_conv sent_keys_append)

lemma process_sent_Nil: "sent_keys (snd (taintProcess e [])) = []"
  by simp

lemma read_is_call: "filter is_read tr = filter is_read (client_calls tr)"
proof -
  have "\<And>ev. is_read ev \<Longrightarrow> is_client_call ev"
    by (case_tac ev) simp_all
  then have "\<And>ev. (is_client_call ev \<and> is_read ev) = is_read ev" by blast
  then show ?thesis by (simp add: client_calls_def)
qed

lemma section_no_read: "filter is_read (sectionCalls k env nt lastBusy) = []"
  by (simp add: sectionCalls_def)

lemma tick_reads: "filter is_read (snd (taintTick env e)) = [GetTaintConditions]"
  by (simp add: read_is_call [of "snd (taintTick env e)"] tick_calls resources_def section_no_read)

lemma process_reads: "length (filter is_read (snd (taintProcess e envs))) = length envs"
proof (induction envs arbitrary: e)
  case Nil
  then show ?case by simp
next
  case (Cons env envs)
  then show ?case by (simp add: process_Cons tick_reads del: taintProcess.simps)
qed

lemma Run_start_fails: "Run (Some err) envs decides e = Returned err"
  by (simp add: Run_def)

lemma Run_started:
  "Run None envs decides e =
     Looping (snd (taintProcess e envs)) (mainLoop decides 0 (sent_keys (snd (taintProcess e envs))))"
  by (simp add: Run_def split: prod.splits)

subsection \<open>The main loop\<close>

lemma evict_choose: "filter is_choose (evictOnePod decide r) = [ChooseOnePodToEvict r]"
  by (simp add: evictOnePod_def split: prod.splits)

lemma evict_recv: "filter is_recv (evictOnePod decide r) = []"
  by (simp add: evictOnePod_def split: prod.splits)

lemma evict_calls_le: "length (client_calls (evictOnePod decide r)) \<le> 1"
  by (simp add: evictOnePod_def client_calls_def split: prod.splits)

lemma mainLoop_choose: "filter is_choose (mainLoop decides n rs) = map ChooseOnePodToEvict rs"
  by (induction rs arbitrary: n) (simp_all add: evict_choose)

lemma mainLoop_recv: "filter is_recv (mainLoop decides n rs) = map Recv rs"
  by (induction rs arbitrary: n) (simp_all add: evict_recv)

lemma mainLoop_calls_le: "length (client_calls (mainLoop decides n rs)) \<le> length rs"
proof (induction rs arbitrary: n)
  case Nil
  then show ?case by (simp add: client_calls_def)
next
  case (Cons r rs)
  have "client_calls (mainLoop decides n (r # rs)) =
      client_calls (evictOnePod (decides n) r) @ client_calls (mainLoop decides (Suc n) rs)"
    by (simp add: client_calls_def)
  with evict_calls_le [of "decides n" r] Cons.IH [of "Suc n"] show ?case by simp
qed

lemma mainLoop_runs:
  "mainLoop decides n rs =
     concat (map (\<lambda>(i, r'). [Recv r', Log Info ''evict pod because %s is not available'']
                              @ evictOnePod (decides i) r')
                 (zip [n..<n + length rs] rs))"
proof (induction rs arbitrary: n)
  case Nil
  then show ?case by simp
next
  case (Cons r rs)
  have "[n..<n + length (r # rs)] = n # [Suc n..<Suc n + length rs]"
    by (simp add: upt_rec)
  with Cons.IH [of "Suc n"] show ?case by simp
qed

lemma client_calls_concat: "client_calls (concat xss) = concat (map client_calls xss)"
  by (induction xss) (simp_all add: client_calls_append, simp add: client_calls_def)

lemma mainLoop_client_calls:
  "client_calls (mainLoop decides n rs) =
     concat (map (\<lambda>(i, r'). client_calls (evictOnePod (decides i) r'))
                 (zip [n..<n + length rs] rs))"
proof -
  have "client_calls (mainLoop decides n rs) =
      concat (map (client_calls \<circ> (\<lambda>(i, r'). [Recv r', Log Info ''evict pod because %s is not available'']
                              @ evictOnePod (decides i) r')) (zip [n..<n + length rs] rs))"
    by (simp only: mainLoop_runs [of decides n rs] client_calls_concat map_map)
  also have "client_calls \<circ> (\<lambda>(i, r'). [Recv r', Log Info ''evict pod because %s is not available'']
                              @ evictOnePod (decides i) r')
      = (\<lambda>(i, r'). client_calls (evictOnePod (decides i) r'))"
    by (auto simp add: client_calls_def fun_eq_iff)
  finally show ?thesis .
qed

subsection \<open>Iterations against the taints of the node\<close>














subsection \<open>Run\<close>

text \<open>
  \<open>Run\<close> returns an error exactly when \<open>conditionManager.Start\<close> returns one, and
  that error. Otherwise it does not return, and whatever the collaborators answer
  (errors included) \<open>taintProcess\<close> carries out every iteration, one read of the taints
  for each, and the main loop receives and handles every request sent.
\<close>

lemma Run_outcome:
  "(Run startErr envs decides e = Returned err \<longleftrightarrow> startErr = Some err) \<and>
   (startErr = None \<longrightarrow>
      Run startErr envs decides e =
        Looping (snd (taintProcess e envs))
                (mainLoop decides 0 (sent_keys (snd (taintProcess e envs)))) \<and>
      length (filter is_read (snd (taintProcess e envs))) = length envs \<and>
      filter is_recv (mainLoop decides 0 (sent_keys (snd (taintProcess e envs))))
        = map Recv (sent_keys (snd (taintProcess e envs))) \<and>
      filter is_choose (mainLoop decides 0 (sent_keys (snd (taintProcess e envs))))
        = map ChooseOnePodToEvict (sent_keys (snd (taintProcess e envs))))"
proof (cases startErr)
  case None
  then show ?thesis
    by (simp add: Run_started process_reads mainLoop_recv mainLoop_choose)
next
  case (Some a)
  then show ?thesis by (simp add: Run_start_fails)
qed

lemma Run_outcome_sample:
  "Run (Some ''no feed'') [env_read_fails, env_cpu_busy] decide_seq NewEvictionManager
     = Returned ''no feed'' \<and>
   length (filter is_read (snd (taintProcess NewEvictionManager
      [env_read_fails, env_cpu_busy, env_cpu_busy]))) = 3 \<and>
   filter is_recv (mainLoop decide_seq 0 (sent_keys (snd (taintProcess NewEvictionManager
      [env_read_fails, env_cpu_busy, env_cpu_busy])))) = [Recv types_CPUBusy, Recv types_CPUBusy]"
proof -
  let ?envs = "[env_read_fails, env_cpu_busy, env_cpu_busy]"
  have s: "sent_keys (snd (taintProcess NewEvictionManager ?envs)) = [types_CPUBusy, types_CPUBusy]"
  proof -
    have t1: "sent_keys (snd (taintTick env_read_fails e)) = []" for e
      by (simp add: tick_sent env_read_fails_def sample_def)
    have t2: "sent_keys (snd (taintTick env_cpu_busy e)) = [types_CPUBusy]" for e
      by (simp add: tick_sent env_cpu_busy_def sample_defs goodCondition_def)
    show ?thesis
      by (simp only: process_sent_Cons process_sent_Nil t1 t2 append.simps)
  qed
  have r: "Run (Some ''no feed'') [env_read_fails, env_cpu_busy] decide_seq NewEvictionManager
      = Returned ''no feed''"
    using Run_outcome [of "Some ''no feed''" "[env_read_fails, env_cpu_busy]" decide_seq
        NewEvictionManager "''no feed''"]
    by (simp del: taintProcess.simps)
  have h: "length (filter is_read (snd (taintProcess NewEvictionManager ?envs))) = length ?envs"
      "filter is_recv (mainLoop decide_seq 0 (sent_keys (snd (taintProcess NewEvictionManager ?envs))))
        = map Recv (sent_keys (snd (taintProcess NewEvictionManager ?envs)))"
    using Run_outcome [of None ?envs decide_seq NewEvictionManager "[]"]
    by (simp_all del: taintProcess.simps mainLoop.simps)
  from h(2) have "filter is_recv (mainLoop decide_seq 0 (sent_keys (snd (taintProcess NewEvictionManager ?envs))))
      = [Recv types_CPUBusy, Recv types_CPUBusy]"
    by (simp only: s list.map)
  with h(1) r show ?thesis by (simp del: taintProcess.simps mainLoop.simps)
qed

section \<open>The claims\<close>

subsection \<open>C1: the request sent when only NetworkRx is unavailable\<close>

text \<open>
  C1 says that in an iteration where NetworkRx is unavailable, NetworkTx is available and
  no earlier section has sent a request, the request sent is \<open>types.NetworkRxBusy\<close>.
  The network section tests \<open>NetworkTxAvailabel\<close> in both branches of its choice, so at
  such an iteration it sets \<open>isEvicted\<close> and sends nothing: evaluated at \<open>env_rx_busy\<close>,
  where the read succeeds and only NetworkRx is unavailable, the iteration sends no
  request at all.
\<close>

theorem C1_rx_busy_sends_nothing:
  "snd (taintIn env_rx_busy) = None \<and>
   \<not> NetworkRxAvailabel (condIn env_rx_busy) \<and> NetworkTxAvailabel (condIn env_rx_busy) \<and>
   CPUAvailable (condIn env_rx_busy) \<and> MemoryAvailable (condIn env_rx_busy) \<and>
   DiskIOAvailable (condIn env_rx_busy) \<and>
   sent_keys (snd (taintTick env_rx_busy NewEvictionManager)) = []"
  by (simp add: tick_sent env_rx_busy_def sample_defs goodCondition_def)

subsection \<open>C2: the fast path\<close>

text \<open>
  C2 says that in an iteration where every resource is available and no taint flag is
  set, the only call to the client is \<open>ClearAllEvictLabels\<close>. As stated this fails: the
  flags are those read by \<open>GetTaintConditions\<close> in the same iteration, which is a call
  to the client too.
\<close>

theorem C2_fast_path_counterexample:
  "snd (taintIn env_idle) = None \<and>
   NetworkRxAvailabel (condIn env_idle) \<and> NetworkTxAvailabel (condIn env_idle) \<and>
   DiskIOAvailable (condIn env_idle) \<and> CPUAvailable (condIn env_idle) \<and>
   MemoryAvailable (condIn env_idle) \<and>
   fst (taintIn env_idle) = noTaint \<and> nodeTaint NewEvictionManager = noTaint \<and>
   client_calls (snd (taintTick env_idle NewEvictionManager)) \<noteq> [ClearAllEvictLabels]"
  by (simp add: tick_calls env_idle_def sample_defs NewEvictionManager_def goodCondition_def)

text \<open>
  C2, amended: in an iteration whose read of the taints succeeds with no flag set and in
  which every resource is available, the calls to the client are the read
  \<open>GetTaintConditions\<close> followed by \<open>ClearAllEvictLabels\<close> and nothing else; no request
  is sent and only \<open>nodeTaint\<close> is assigned.
\<close>

theorem C2_fast_path:
  "snd (taintIn env) = None \<Longrightarrow>
   NetworkRxAvailabel (condIn env) \<Longrightarrow> NetworkTxAvailabel (condIn env) \<Longrightarrow>
   DiskIOAvailable (condIn env) \<Longrightarrow> CPUAvailable (condIn env) \<Longrightarrow>
   MemoryAvailable (condIn env) \<Longrightarrow>
   \<not> DiskIO (fst (taintIn env)) \<Longrightarrow> \<not> NetworkIO (fst (taintIn env)) \<Longrightarrow>
   \<not> CPU (fst (taintIn env)) \<Longrightarrow> \<not> Memory (fst (taintIn env)) \<Longrightarrow>
     client_calls (snd (taintTick env e)) = [GetTaintConditions, ClearAllEvictLabels] \<and>
     snd (taintTick env e) =
       [Sleep taintUpdatePeriod, GetUnTaintGracePeriod, GetTaintConditions, GetNodeCondition,
        ClearAllEvictLabels] \<and>
     fst (taintTick env e) = e\<lparr>nodeTaint := fst (taintIn env)\<rparr>"
  by (simp add: tick_fast goodCondition_def client_calls_def)

theorem C2_fast_path_witness:
  "client_calls (snd (taintTick env_idle NewEvictionManager)) =
     [GetTaintConditions, ClearAllEvictLabels] \<and>
   fst (taintTick env_idle NewEvictionManager) = NewEvictionManager"
  using C2_fast_path [of env_idle NewEvictionManager]
  by (simp add: env_idle_def sample_defs NewEvictionManager_def client_calls_def)

subsection \<open>C5: who writes the taint flags\<close>

text \<open>
  C5 says that the flag of a resource is set after a successful taint call and cleared
  after a successful untaint call, and that an iteration changes the flags in no other
  way. As stated this fails: at \<open>env_cpu_busy\<close> the CPU taint call is made and succeeds,
  and the CPU flag of the manager is still false after the iteration.
\<close>

theorem C5_taint_flag_counterexample:
  "SetTaintConditions types_CPUBusy ''Taint'' \<in> set (snd (taintTick env_cpu_busy NewEvictionManager)) \<and>
   setTaintErr env_cpu_busy types_CPUBusy ''Taint'' = None \<and>
   \<not> CPU (nodeTaint (fst (taintTick env_cpu_busy NewEvictionManager)))"
proof -
  have "SetTaintConditions types_CPUBusy ''Taint''
          \<in> set (client_calls (snd (taintTick env_cpu_busy NewEvictionManager)))"
    by (simp add: tick_calls env_cpu_busy_def sample_defs goodCondition_def resources_def
        sectionCalls_def)
  then show ?thesis
    by (simp add: client_calls_def tick_nodeTaint) (simp add: env_cpu_busy_def sample_defs)
qed

text \<open>
  C5, amended: the flags are written only by \<open>taintProcess\<close>, and only by its read: each
  iteration assigns to \<open>nodeTaint\<close> the value returned by \<open>GetTaintConditions\<close> (also
  when that call returns an error) and no taint or untaint call changes it, so after any
  number of iterations the flags are those returned by the last read.
\<close>

theorem C5_nodeTaint_is_what_was_read:
  "nodeTaint (fst (taintTick env e)) = fst (taintIn env) \<and>
   (envs \<noteq> [] \<longrightarrow> nodeTaint (fst (taintProcess e envs)) = fst (taintIn (last envs)))"
  by (simp add: tick_nodeTaint process_nodeTaint)

theorem C5_nodeTaint_is_what_was_read_witness:
  "nodeTaint (fst (taintProcess NewEvictionManager [env_cpu_busy, env_calm_10])) = cpuTaint"
  using C5_nodeTaint_is_what_was_read [of env_cpu_busy NewEvictionManager "[env_cpu_busy, env_calm_10]"]
  by (simp add: env_calm_10_def sample_def)

subsection \<open>C9: a failed read of the taints\<close>

text \<open>
  C9: when \<open>GetTaintConditions\<close> returns an error the iteration does nothing more than
  log it: no taint or untaint call, no request sent, no last-taint time written, no
  \<open>ClearAllEvictLabels\<close>, and the loop goes on with the next iteration.
\<close>

theorem C9_read_error_skips_tick:
  "snd (taintIn env) \<noteq> None \<Longrightarrow>
     snd (taintTick env e) =
       [Sleep taintUpdatePeriod, GetUnTaintGracePeriod, GetTaintConditions,
        Log Error ''get taint condition error: %v''] \<and>
     fst (taintTick env e) = e\<lparr>nodeTaint := fst (taintIn env)\<rparr> \<and>
     sent_keys (snd (taintTick env e)) = [] \<and>
     client_calls (snd (taintTick env e)) = [GetTaintConditions] \<and>
     snd (taintProcess e (env # envs)) =
       snd (taintTick env e) @ snd (taintProcess (e\<lparr>nodeTaint := fst (taintIn env)\<rparr>) envs)"
  by (simp add: tick_skipped client_calls_def split: prod.splits)

theorem C9_read_error_skips_tick_witness:
  "snd (taintIn env_read_fails) \<noteq> None \<and>
   \<not> CPUAvailable (condIn env_read_fails) \<and>
   snd (taintTick env_read_fails NewEvictionManager) =
     [Sleep taintUpdatePeriod, GetUnTaintGracePeriod, GetTaintConditions,
      Log Error ''get taint condition error: %v''] \<and>
   lastTaintCPUTime (fst (taintTick env_read_fails NewEvictionManager)) = zeroTime"
proof -
  have h: "snd (taintIn env_read_fails) \<noteq> None"
    by (simp add: env_read_fails_def sample_def)
  show ?thesis
    using h C9_read_error_skips_tick [OF h, of NewEvictionManager "[]"]
    by (simp add: env_read_fails_def sample_defs NewEvictionManager_def)
qed

subsection \<open>C3: untaint only after the grace period\<close>

text \<open>
  C3 says that a resource tainted and observed available is untainted exactly when the
  time elapsed since it was last observed unavailable strictly exceeds the grace period.
  As stated this fails: the code compares \<open>duration.Minutes()\<close> with
  \<open>unTaintPeriod.Minutes()\<close>, two \<open>float64\<close> values, and durations that differ by
  less than the resolution of \<open>float64\<close> are the same number of minutes. With the CPU
  last observed unavailable at \<open>clock0\<close> and a grace period of 200 days, the iteration
  one nanosecond after the 200 days makes no untaint call.
\<close>

theorem C3_float_minutes_counterexample:
  "snd (taintIn env_cpu_busy) = None \<and> \<not> CPUAvailable (condIn env_cpu_busy) \<and>
   snd (taintIn env_calm_200d) = None \<and> CPU (fst (taintIn env_calm_200d)) \<and>
   CPUAvailable (condIn env_calm_200d) \<and>
   graceIn env_calm_200d < Sub (nowCPU env_calm_200d) (nowCPU env_cpu_busy) \<and>
   SetTaintConditions types_CPUBusy ''UnTaint''
     \<notin> set (snd (taintTick env_calm_200d (fst (taintProcess NewEvictionManager [env_cpu_busy]))))"
proof -
  let ?t = "fst (taintTick env_cpu_busy NewEvictionManager)"
  have k: "types_CPUBusy \<in> set resources" by (simp add: resources_def)
  have a: "snd (taintIn env_cpu_busy) = None" "\<not> CPUAvailable (condIn env_cpu_busy)"
    by (simp_all add: env_cpu_busy_def sample_defs)
  have c: "snd (taintIn env_calm_200d) = None" "flag types_CPUBusy (fst (taintIn env_calm_200d))"
    "available types_CPUBusy (condIn env_calm_200d)"
    by (simp_all add: env_calm_200d_def sample_defs)
  have e: "fst (taintProcess NewEvictionManager [env_cpu_busy]) = ?t"
    by (simp split: prod.splits)
  have l: "lastTaintCPUTime ?t = clock0"
    using tick_lastTaintTime [OF k, of env_cpu_busy NewEvictionManager] a
    by (simp add: env_cpu_busy_def sample_def)
  have sub: "Sub (nowCPU env_calm_200d) clock0 = 288000 * Minute + 1"
    by (simp add: env_calm_200d_def sample_def Sub_def maxDuration_def minDuration_def
        Minute_value)
  have g: "graceIn env_calm_200d = 288000 * Minute"
    by (simp add: env_calm_200d_def sample_def)
  have "\<not> Minutes (graceIn env_calm_200d)
      < Minutes (Sub (nowCPU env_calm_200d) (lastTaintCPUTime ?t))"
    by (simp only: l sub g Minutes_200d_plus_1 less_irrefl not_False_eq_True)
  then have "SetTaintConditions types_CPUBusy ''UnTaint'' \<notin> set (snd (taintTick env_calm_200d ?t))"
    using untaint_in_tick [OF k c, of ?t] by simp
  then have "SetTaintConditions types_CPUBusy ''UnTaint''
     \<notin> set (snd (taintTick env_calm_200d (fst (taintProcess NewEvictionManager [env_cpu_busy]))))"
    by (simp only: e not_False_eq_True)
  moreover have "graceIn env_calm_200d < Sub (nowCPU env_calm_200d) (nowCPU env_cpu_busy)"
    using sub g by (simp add: env_cpu_busy_def sample_def)
  ultimately show ?thesis using a c by (simp del: taintProcess.simps)
qed

text \<open>
  C3, amended: let resource \<open>k\<close> be observed unavailable in an iteration (\<open>env0\<close>), and
  not observed unavailable in the iterations after it (\<open>envs\<close>: in each the resource is
  available or the read of the taints fails, so the condition is not looked at). In a
  next iteration (\<open>env\<close>) where \<open>k\<close> is tainted and available, the untaint call for \<open>k\<close>
  is made exactly when the elapsed time since the clock reading of \<open>env0\<close>, in minutes
  as \<open>float64\<close>, exceeds the grace period in minutes as \<open>float64\<close>. It is made only if
  the elapsed time strictly exceeds the grace period; when both are shorter than
  \<open>2 ^ 17\<close> minutes (91 days) it is made exactly when the elapsed time strictly exceeds
  the grace period; and with a grace period of 30 s it is not made 29 s after the
  reading.
\<close>

theorem C3_untaint_after_grace:
  assumes "k \<in> set resources"
    and "snd (taintIn env0) = None" and "\<not> available k (condIn env0)"
    and "\<forall>env'\<in>set envs. snd (taintIn env') \<noteq> None \<or> available k (condIn env')"
    and "snd (taintIn env) = None" and "flag k (fst (taintIn env))"
    and "available k (condIn env)"
  shows "(SetTaintConditions k ''UnTaint'' \<in> set (snd (taintTick env (fst (taintProcess e (env0 # envs)))))
            \<longleftrightarrow> Minutes (graceIn env) < Minutes (Sub (nowOf k env) (nowOf k env0))) \<and>
         (SetTaintConditions k ''UnTaint'' \<in> set (snd (taintTick env (fst (taintProcess e (env0 # envs)))))
            \<longrightarrow> graceIn env < Sub (nowOf k env) (nowOf k env0)) \<and>
         (\<bar>graceIn env\<bar> < 2 ^ 17 * Minute \<and> \<bar>Sub (nowOf k env) (nowOf k env0)\<bar> < 2 ^ 17 * Minute \<longrightarrow>
            (SetTaintConditions k ''UnTaint'' \<in> set (snd (taintTick env (fst (taintProcess e (env0 # envs)))))
               \<longleftrightarrow> graceIn env < Sub (nowOf k env) (nowOf k env0))) \<and>
         (graceIn env = 30 * Second \<and> nowOf k env = nowOf k env0 + 29 * Second \<longrightarrow>
            SetTaintConditions k ''UnTaint'' \<notin> set (snd (taintTick env (fst (taintProcess e (env0 # envs))))))"
proof -
  let ?e1 = "fst (taintTick env0 e)"
  let ?e2 = "fst (taintProcess e (env0 # envs))"
  let ?U = "SetTaintConditions k ''UnTaint'' \<in> set (snd (taintTick env ?e2))"
  let ?g = "graceIn env"
  let ?d = "Sub (nowOf k env) (nowOf k env0)"
  have "lastTaintTime k ?e1 = nowOf k env0"
    using assms(1-3) by (simp add: tick_lastTaintTime)
  moreover have "lastTaintTime k (fst (taintProcess ?e1 envs)) = lastTaintTime k ?e1"
    using assms(1,4) by (rule process_lastTaintTime_kept)
  ultimately have last: "lastTaintTime k ?e2 = nowOf k env0"
    by (simp add: process_Cons del: taintProcess.simps)
  have iff: "?U \<longleftrightarrow> Minutes ?g < Minutes ?d"
    using untaint_in_tick [OF assms(1,5,6,7), of ?e2] last by simp
  have only: "?U \<longrightarrow> ?g < ?d"
    using iff Minutes_less_imp [of ?g ?d] by blast
  have small: "\<bar>?g\<bar> < 2 ^ 17 * Minute \<and> \<bar>?d\<bar> < 2 ^ 17 * Minute \<longrightarrow> (?U \<longleftrightarrow> ?g < ?d)"
    using iff Minutes_less_small [of ?g ?d] by blast
  have "Sub (nowOf k env0 + 29 * Second) (nowOf k env0) = 29 * Second"
    by (simp add: Sub_def maxDuration_def minDuration_def Second_def Nanosecond_def)
  then have "?g = 30 * Second \<and> nowOf k env = nowOf k env0 + 29 * Second \<longrightarrow> \<not> ?g < ?d"
    by (simp add: Second_def Nanosecond_def)
  with only have ex: "?g = 30 * Second \<and> nowOf k env = nowOf k env0 + 29 * Second \<longrightarrow> \<not> ?U"
    by blast
  from iff only small ex show ?thesis by blast
qed

theorem C3_untaint_after_grace_witness:
  "SetTaintConditions types_CPUBusy ''UnTaint''
     \<in> set (snd (taintTick env_calm_40 (fst (taintProcess NewEvictionManager [env_cpu_busy, env_calm_10])))) \<and>
   SetTaintConditions types_CPUBusy ''UnTaint''
     \<notin> set (snd (taintTick env_calm_29 (fst (taintProcess NewEvictionManager [env_cpu_busy, env_calm_10]))))"
proof -
  have k: "types_CPUBusy \<in> set resources" by (simp add: resources_def)
  have a: "snd (taintIn env_cpu_busy) = None" "\<not> available types_CPUBusy (condIn env_cpu_busy)"
    by (simp_all add: sample_defs2)
  have b: "\<forall>env'\<in>set [env_calm_10]. snd (taintIn env') \<noteq> None \<or> available types_CPUBusy (condIn env')"
    by (simp add: sample_defs2)
  have c: "snd (taintIn env_calm_40) = None" "flag types_CPUBusy (fst (taintIn env_calm_40))"
    "available types_CPUBusy (condIn env_calm_40)"
    by (simp_all add: sample_defs2)
  have d: "snd (taintIn env_calm_29) = None" "flag types_CPUBusy (fst (taintIn env_calm_29))"
    "available types_CPUBusy (condIn env_calm_29)"
    by (simp_all add: sample_defs2)
  have r40: "\<bar>graceIn env_calm_40\<bar> < 2 ^ 17 * Minute \<and>
      \<bar>Sub (nowOf types_CPUBusy env_calm_40) (nowOf types_CPUBusy env_cpu_busy)\<bar> < 2 ^ 17 * Minute \<and>
      graceIn env_calm_40 < Sub (nowOf types_CPUBusy env_calm_40) (nowOf types_CPUBusy env_cpu_busy)"
    by (simp add: sample_defs2 Sub_def maxDuration_def minDuration_def Minute_value)
  have s29: "graceIn env_calm_29 = 30 * Second \<and>
      nowOf types_CPUBusy env_calm_29 = nowOf types_CPUBusy env_cpu_busy + 29 * Second"
    by (simp add: sample_defs2)
  show ?thesis
    using C3_untaint_after_grace [OF k a b c, of NewEvictionManager]
      C3_untaint_after_grace [OF k a b d, of NewEvictionManager] r40 s29
    by blast
qed

subsection \<open>C4: at most one request per iteration\<close>

text \<open>
  C4: an iteration sends at most one request on \<open>evictChan\<close>; a request sent is about
  the first unavailable resource in the order CPU, memory, disk I/O, network I/O; and
  when several resources are unavailable (and the read of the taints succeeds) exactly
  the request of the first one is sent, the others sending nothing in this iteration.
  When the several are NetworkRx and NetworkTx alone, the one request is
  \<open>types.NetworkRxBusy\<close>.
\<close>

theorem C4_at_most_one_signal:
  "length (sent_keys (snd (taintTick env e))) \<le> 1 \<and>
   (\<forall>s\<in>set (sent_keys (snd (taintTick env e))).
      unavailable_resources (condIn env) \<noteq> [] \<and>
      signal_resource s = hd (unavailable_resources (condIn env))) \<and>
   (snd (taintIn env) = None \<and> 2 \<le> length (unavailable_resources (condIn env)) \<longrightarrow>
      sent_keys (snd (taintTick env e)) = [hd (unavailable_resources (condIn env))]) \<and>
   (snd (taintIn env) = None \<and> unavailable_resources (condIn env) = [types_NetworkIO] \<and>
    \<not> NetworkRxAvailabel (condIn env) \<and> \<not> NetworkTxAvailabel (condIn env) \<longrightarrow>
      sent_keys (snd (taintTick env e)) = [types_NetworkRxBusy])"
  by (simp add: tick_sent unavailable_resources_def resources_def goodCondition_def)

theorem C4_at_most_one_signal_witness:
  "unavailable_resources (condIn env_three_busy) = [types_CPUBusy, types_MemBusy, types_DiskIO] \<and>
   sent_keys (snd (taintTick env_three_busy NewEvictionManager)) = [types_CPUBusy]"
  using C4_at_most_one_signal [of env_three_busy NewEvictionManager]
  by (simp add: env_three_busy_def sample_defs unavailable_resources_def resources_def)

subsection \<open>C10: the first iteration of a fresh manager\<close>

text \<open>
  C10 says that on the first iteration a resource reported tainted and observed
  available is untainted at once, whatever the grace period. The last-taint times of a
  new manager are the zero \<open>Time\<close>, and the elapsed time since then saturates at the
  largest \<open>Duration\<close>; the comparison is strict, so with that very \<open>Duration\<close> as
  grace period no untaint call is made.
\<close>

theorem C10_max_grace_counterexample:
  "snd (taintIn env_first_max) = None \<and> CPU (fst (taintIn env_first_max)) \<and>
   CPUAvailable (condIn env_first_max) \<and>
   lastTaintCPUTime NewEvictionManager = zeroTime \<and>
   SetTaintConditions types_CPUBusy ''UnTaint'' \<notin> set (snd (taintTick env_first_max NewEvictionManager))"
proof -
  have k: "types_CPUBusy \<in> set resources" by (simp add: resources_def)
  have a: "snd (taintIn env_first_max) = None" "flag types_CPUBusy (fst (taintIn env_first_max))"
    "available types_CPUBusy (condIn env_first_max)"
    by (simp_all add: env_first_max_def sample_defs)
  have "Sub (nowOf types_CPUBusy env_first_max) (lastTaintTime types_CPUBusy NewEvictionManager)
      = graceIn env_first_max"
    by (simp add: env_first_max_def sample_defs NewEvictionManager_def Sub_def zeroTime_def
        maxDuration_def)
  then have "\<not> Minutes (graceIn env_first_max)
      < Minutes (Sub (nowOf types_CPUBusy env_first_max) (lastTaintTime types_CPUBusy NewEvictionManager))"
    by simp
  then have "SetTaintConditions types_CPUBusy ''UnTaint''
      \<notin> set (snd (taintTick env_first_max NewEvictionManager))"
    by (simp only: untaint_in_tick [OF k a] not_False_eq_True)
  then show ?thesis
    using a by (simp add: NewEvictionManager_def)
qed

text \<open>
  C10, amended: on the first iteration of a new manager, for a resource reported tainted
  and observed available, the untaint call is made exactly when the grace period, in
  minutes as \<open>float64\<close>, is below the elapsed time since the zero \<open>Time\<close> as \<open>Sub\<close>
  computes it, in minutes as \<open>float64\<close>. With the clock at least \<open>maxDuration\<close> past the
  zero \<open>Time\<close> (any date after the year 293) the elapsed time is \<open>maxDuration\<close>, about
  292 years, and the call is made exactly for the grace periods of at most
  \<open>maxDuration\<close> less 558 ns: the 558 largest values of \<open>Duration\<close> are the same
  \<open>float64\<close> number of minutes as \<open>maxDuration\<close>.
\<close>

theorem C10_first_tick_untaint:
  assumes "k \<in> set resources" and "snd (taintIn env) = None" and "flag k (fst (taintIn env))"
    and "available k (condIn env)"
  shows "(SetTaintConditions k ''UnTaint'' \<in> set (snd (taintTick env NewEvictionManager))
           \<longleftrightarrow> Minutes (graceIn env) < Minutes (Sub (nowOf k env) zeroTime)) \<and>
         (maxDuration \<le> nowOf k env \<longrightarrow>
            (SetTaintConditions k ''UnTaint'' \<in> set (snd (taintTick env NewEvictionManager))
               \<longleftrightarrow> graceIn env \<le> maxDuration - 558))"
proof -
  have "lastTaintTime k NewEvictionManager = zeroTime"
    using assms(1) by (auto simp add: resources_def NewEvictionManager_def)
  then have iff: "SetTaintConditions k ''UnTaint'' \<in> set (snd (taintTick env NewEvictionManager))
           \<longleftrightarrow> Minutes (graceIn env) < Minutes (Sub (nowOf k env) zeroTime)"
    using untaint_in_tick [OF assms, of NewEvictionManager] by simp
  have "maxDuration \<le> nowOf k env \<Longrightarrow> Sub (nowOf k env) zeroTime = maxDuration"
    by (simp add: Sub_def zeroTime_def maxDuration_def minDuration_def)
  with iff Minutes_less_max [of "graceIn env"] show ?thesis by auto
qed

theorem C10_first_tick_untaint_witness:
  "maxDuration \<le> nowOf types_CPUBusy env_first \<and> graceIn env_first \<le> maxDuration - 558 \<and>
   SetTaintConditions types_CPUBusy ''UnTaint'' \<in> set (snd (taintTick env_first NewEvictionManager))"
proof -
  have k: "types_CPUBusy \<in> set resources" by (simp add: resources_def)
  have a: "snd (taintIn env_first) = None" "flag types_CPUBusy (fst (taintIn env_first))"
    "available types_CPUBusy (condIn env_first)"
    by (simp_all add: env_first_def sample_defs)
  have b: "maxDuration \<le> nowOf types_CPUBusy env_first \<and> graceIn env_first \<le> maxDuration - 558"
    by (simp add: env_first_def sample_defs maxDuration_def)
  show ?thesis using C10_first_tick_untaint [OF k a] b by blast
qed

subsection \<open>C6: one taint call per run of unavailable iterations\<close>




subsection \<open>C7: what evictOnePod does with a request\<close>

text \<open>
  C7: for a request \<open>r\<close>, \<open>evictOnePod\<close> asks the condition manager once, for \<open>r\<close>. If
  the answer carries an error it logs the error and calls the client not at all; if the
  answer is pod \<open>W\<close>, not to evict, priority \<open>p\<close>, its only call to the client is
  \<open>LabelPod W p "Add"\<close>; if the answer is to evict, its only call is \<open>EvictOnePod W\<close>.
  The main loop does, for each request it receives and in the order received, one
  receive, one log line and one run of \<open>evictOnePod\<close> on that request, and nothing
  else: its calls to the client are those of these runs, one run per request.
\<close>

theorem C7_dispatch:
  assumes "decide r = (W, isHardEvict, p, err)"
  shows "filter is_choose (evictOnePod decide r) = [ChooseOnePodToEvict r] \<and>
    (err \<noteq> None \<longrightarrow>
       evictOnePod decide r =
         [ChooseOnePodToEvict r, Log Error ''evictOnePod choose one pod to evict error: %v''] \<and>
       client_calls (evictOnePod decide r) = []) \<and>
    (err = None \<and> \<not> isHardEvict \<longrightarrow>
       client_calls (evictOnePod decide r) = [LabelPod W p ''Add'']) \<and>
    (err = None \<and> isHardEvict \<longrightarrow>
       client_calls (evictOnePod decide r) = [EvictOnePod W]) \<and>
    length (client_calls (evictOnePod decide r)) \<le> 1 \<and>
    mainLoop decides n rs =
      concat (map (\<lambda>(i, r'). [Recv r', Log Info ''evict pod because %s is not available'']
                               @ evictOnePod (decides i) r')
                  (zip [n..<n + length rs] rs)) \<and>
    client_calls (mainLoop decides n rs) =
      concat (map (\<lambda>(i, r'). client_calls (evictOnePod (decides i) r'))
                  (zip [n..<n + length rs] rs)) \<and>
    filter is_recv (mainLoop decides n rs) = map Recv rs \<and>
    filter is_choose (mainLoop decides n rs) = map ChooseOnePodToEvict rs \<and>
    length (client_calls (mainLoop decides n rs)) \<le> length rs"
proof -
  have one: "(err \<noteq> None \<longrightarrow>
       evictOnePod decide r =
         [ChooseOnePodToEvict r, Log Error ''evictOnePod choose one pod to evict error: %v''] \<and>
       client_calls (evictOnePod decide r) = []) \<and>
    (err = None \<and> \<not> isHardEvict \<longrightarrow>
       client_calls (evictOnePod decide r) = [LabelPod W p ''Add'']) \<and>
    (err = None \<and> isHardEvict \<longrightarrow>
       client_calls (evictOnePod decide r) = [EvictOnePod W])"
    using assms by (simp add: evictOnePod_def client_calls_def)
  show ?thesis
    using one evict_choose [of decide r] evict_calls_le [of decide r]
      mainLoop_runs [of decides n rs] mainLoop_client_calls [of decides n rs]
      mainLoop_recv [of decides n rs] mainLoop_choose [of decides n rs]
      mainLoop_calls_le [of decides n rs]
    by blast
qed

theorem C7_dispatch_witness:
  "client_calls (evictOnePod decide_label types_NetworkRxBusy) = [LabelPod podW 7 ''Add''] \<and>
   client_calls (evictOnePod decide_evict types_CPUBusy) = [EvictOnePod podW] \<and>
   client_calls (evictOnePod decide_fail types_CPUBusy) = [] \<and>
   client_calls (mainLoop decide_steps 0 [types_NetworkRxBusy, types_CPUBusy, types_MemBusy])
     = [LabelPod podW 7 ''Add'', EvictOnePod podW]"
proof -
  let ?rs = "[types_NetworkRxBusy, types_CPUBusy, types_MemBusy]"
  have a: "decide_label types_NetworkRxBusy = (podW, False, 7, None)"
    and b: "decide_evict types_CPUBusy = (podW, True, 0, None)"
    and c: "decide_fail types_CPUBusy = (podW, False, 0, Some ''no pod'')"
    and c': "decide_fail types_MemBusy = (podW, False, 0, Some ''no pod'')"
    by (simp_all add: decide_label_def decide_evict_def decide_fail_def)
  have z: "zip [0..<0 + length ?rs] ?rs
      = [(0, types_NetworkRxBusy), (1, types_CPUBusy), (2, types_MemBusy)]"
    by (simp add: upt_rec)
  have d: "decide_steps 0 = decide_label" "decide_steps 1 = decide_evict"
    "decide_steps 2 = decide_fail"
    by (simp_all add: decide_steps_def)
  have 1: "client_calls (evictOnePod decide_label types_NetworkRxBusy) = [LabelPod podW 7 ''Add'']"
    using C7_dispatch [of decide_label types_NetworkRxBusy podW False 7 None decide_steps 0 ?rs, OF a, THEN conjunct2, THEN conjunct2, THEN conjunct1]
    by simp
  have 2: "client_calls (evictOnePod decide_evict types_CPUBusy) = [EvictOnePod podW]"
    using C7_dispatch [of decide_evict types_CPUBusy podW True 0 None decide_steps 0 ?rs, OF b, THEN conjunct2, THEN conjunct2, THEN conjunct2, THEN conjunct1]
    by simp
  have 3: "client_calls (evictOnePod decide_fail types_CPUBusy) = []"
    using C7_dispatch [of decide_fail types_CPUBusy podW False 0 "Some ''no pod''" decide_steps 0 ?rs, OF c, THEN conjunct2, THEN conjunct1]
    by (simp add: client_calls_def)
  have 4: "client_calls (evictOnePod decide_fail types_MemBusy) = []"
    using C7_dispatch [of decide_fail types_MemBusy podW False 0 "Some ''no pod''" decide_steps 0 ?rs, OF c', THEN conjunct2, THEN conjunct1]
    by (simp add: client_calls_def)
  have "client_calls (mainLoop decide_steps 0 ?rs) =
      concat (map (\<lambda>(i, r'). client_calls (evictOnePod (decide_steps i) r'))
                  (zip [0..<0 + length ?rs] ?rs))"
    using C7_dispatch [of decide_label types_NetworkRxBusy podW False 7 None decide_steps 0 ?rs, OF a]
    by blast
  then have "client_calls (mainLoop decide_steps 0 ?rs) = [LabelPod podW 7 ''Add'', EvictOnePod podW]"
    by (simp only: z list.map prod.case d 1 2 4 concat.simps append.simps)
  with 1 2 3 show ?thesis by simp
qed

subsection \<open>C8: what becomes of errors after the start\<close>

text \<open>
  C8 says that \<open>Run\<close> returns an error exactly when \<open>conditionManager.Start\<close> fails,
  that afterwards no failed operation ends either loop, and that every error of the
  client and of the condition manager is logged and absorbed. The first two hold
  (\<open>Run_outcome\<close>). The errors of \<open>GetTaintConditions\<close>, \<open>SetTaintConditions\<close> and
  \<open>ChooseOnePodToEvict\<close> are logged where they occur, and that of \<open>EvictOnePod\<close> or
  \<open>LabelPod\<close> by the closing log line of \<open>evictOnePod\<close>; the result of
  \<open>ClearAllEvictLabels\<close> alone is dropped. Evaluated at \<open>env_idle_clear_fails\<close>, a
  fast-path iteration in which \<open>ClearAllEvictLabels\<close> returns an error, the iteration
  writes no log line at all.
\<close>

theorem C8_clear_error_not_logged:
  "clearErr env_idle_clear_fails = Some ''forbidden'' \<and>
   snd (taintTick env_idle_clear_fails NewEvictionManager) =
     [Sleep taintUpdatePeriod, GetUnTaintGracePeriod, GetTaintConditions, GetNodeCondition,
      ClearAllEvictLabels] \<and>
   snd (taintTick env_idle_clear_fails NewEvictionManager) = snd (taintTick env_idle NewEvictionManager)"
  by (simp add: tick_fast env_idle_clear_fails_def env_idle_def sample_defs goodCondition_def)

end
